theory Spec2Isabelle
  imports Main "HOL-Library.Word"
begin

unbundle bit_operations_syntax

section \<open>Persisted configuration (utils/config.ts)\<close>

text \<open>
  A configuration record as it is read from the JSON file: every key may be missing, so
  every field is optional (\<open>None\<close> is "key absent"). \<open>formatConfig\<close> fills the
  missing keys, \<open>cleanConfigForWrite\<close> deletes the keys that hold their default.
\<close>

text \<open>
  A JavaScript string is a sequence of 16-bit code units. \<open>js\<close> writes an ASCII
  literal as one.
\<close>

type_synonym js_string = "16 word list"

definition js :: "string \<Rightarrow> js_string" where
  "js s = map (\<lambda>c. of_nat (of_char c)) s"

record markdown_cfg =
  md_mode :: "int option"
  md_id :: "js_string option"
  md_kv :: "js_string list option"

record event_cfg =
  ev_type :: "int option"
  wsUrl :: "js_string option"
  wsToken :: "js_string option"

record qqbot_cfg =
  appId :: "js_string option"
  secret :: "js_string option"
  prodApi :: "js_string option"
  sandboxApi :: "js_string option"
  tokenApi :: "js_string option"
  sandbox :: "bool option"
  qqEnable :: "bool option"
  guildEnable :: "bool option"
  guildMode :: "int option"
  exclude :: "js_string list option"
  regex :: "(js_string \<times> js_string) list option"
  markdown :: "markdown_cfg option"
  event :: "event_cfg option"

text \<open>\<open>getDefaultConfig()[0]\<close>, with its two nested objects.\<close>

definition def_markdown :: markdown_cfg where
  "def_markdown = \<lparr> md_mode = Some 0, md_id = Some [],
     md_kv = Some [js ''text_start'', js ''img_dec'', js ''img_url'', js ''text_end''] \<rparr>"

definition def_event :: event_cfg where
  "def_event = \<lparr> ev_type = Some 0,
     wsUrl = Some (js ''wss://sandbox.api.sgroup.qq.com/websocket/''), wsToken = Some [] \<rparr>"

definition getDefaultConfig :: qqbot_cfg where
  "getDefaultConfig = \<lparr> appId = Some [], secret = Some [],
     prodApi = Some (js ''https://api.sgroup.qq.com''),
     sandboxApi = Some (js ''https://sandbox.api.sgroup.qq.com''),
     tokenApi = Some (js ''https://bots.qq.com/app/getAppAccessToken''),
     sandbox = Some False, qqEnable = Some True, guildEnable = Some True,
     guildMode = Some 0, exclude = Some [],
     regex = Some [(js ''^/'', js ''#'')],
     markdown = Some def_markdown, event = Some def_event \<rparr>"

text \<open>
  Object spread \<open>{...def, ...item}\<close> on one key: the item's value when the key is
  present, the default's otherwise.
\<close>

definition spread :: "'a option \<Rightarrow> 'a option \<Rightarrow> 'a option" where
  "spread d i = (case i of Some v \<Rightarrow> Some v | None \<Rightarrow> d)"

text \<open>
  \<open>item.k || def.k\<close> on a string key: a missing key and the empty string are both falsy.
\<close>

definition or_default :: "js_string option \<Rightarrow> js_string option \<Rightarrow> js_string option" where
  "or_default i d = (case i of Some s \<Rightarrow> (if s = [] then d else Some s) | None \<Rightarrow> d)"

text \<open>
  \<open>item.event?.wsUrl\<close>: the key of the nested object, absent when the object is.
\<close>

definition opt_field :: "('r \<Rightarrow> 'a option) \<Rightarrow> 'r option \<Rightarrow> 'a option" where
  "opt_field f r = (case r of Some x \<Rightarrow> f x | None \<Rightarrow> None)"

definition format_markdown :: "markdown_cfg option \<Rightarrow> markdown_cfg" where
  "format_markdown m = \<lparr>
     md_mode = spread (md_mode def_markdown) (opt_field md_mode m),
     md_id = spread (md_id def_markdown) (opt_field md_id m),
     md_kv = spread (md_kv def_markdown) (opt_field md_kv m) \<rparr>"

definition format_event :: "event_cfg option \<Rightarrow> event_cfg" where
  "format_event e = \<lparr>
     ev_type = spread (ev_type def_event) (opt_field ev_type e),
     wsUrl = or_default (opt_field wsUrl e) (wsUrl def_event),
     wsToken = or_default (opt_field wsToken e) (wsToken def_event) \<rparr>"

text \<open>The object literal built for one item inside \<open>formatConfig\<close>'s first loop.\<close>

definition format_item :: "qqbot_cfg \<Rightarrow> qqbot_cfg" where
  "format_item item = (let def = getDefaultConfig in \<lparr>
     appId = spread (appId def) (appId item),
     secret = spread (secret def) (secret item),
     prodApi = or_default (prodApi item) (prodApi def),
     sandboxApi = or_default (sandboxApi item) (sandboxApi def),
     tokenApi = or_default (tokenApi item) (tokenApi def),
     sandbox = spread (sandbox def) (sandbox item),
     qqEnable = spread (qqEnable def) (qqEnable item),
     guildEnable = spread (guildEnable def) (guildEnable item),
     guildMode = spread (guildMode def) (guildMode item),
     exclude = spread (exclude def) (exclude item),
     regex = spread (regex def) (regex item),
     markdown = Some (format_markdown (markdown item)),
     event = Some (format_event (event item)) \<rparr>)"

text \<open>
  \<open>String.prototype.trim\<close> removes, at both ends, the code units that are WhiteSpace or
  LineTerminator in ECMAScript: tab, line feed, vertical tab, form feed, carriage return,
  space, U+00A0, U+1680, U+2000 to U+200A, U+2028, U+2029, U+202F, U+205F, U+3000 and
  U+FEFF.
\<close>

definition js_space :: "16 word \<Rightarrow> bool" where
  "js_space u =
     (u \<in> {0x9, 0xA, 0xB, 0xC, 0xD, 0x20, 0xA0, 0x1680, 0x2028, 0x2029, 0x202F, 0x205F,
           0x3000, 0xFEFF}
      \<or> (0x2000 \<le> u \<and> u \<le> 0x200A))"

definition trim :: "js_string \<Rightarrow> js_string" where
  "trim s = rev (dropWhile js_space (rev (dropWhile js_space s)))"

text \<open>
  \<open>Map.prototype.set\<close> on a map kept in insertion order: an existing key keeps its
  place and takes the new value, a new key goes to the end.
\<close>

fun map_set :: "('k \<times> 'v) list \<Rightarrow> 'k \<Rightarrow> 'v \<Rightarrow> ('k \<times> 'v) list" where
  "map_set [] k v = [(k, v)]"
| "map_set ((k', v') # m) k v =
     (if k' = k then (k, v) # m else (k', v') # map_set m k v)"

text \<open>\<open>String(cfg.appId || '').trim()\<close>\<close>

definition cfg_id :: "qqbot_cfg \<Rightarrow> js_string" where
  "cfg_id c = trim (case appId c of Some s \<Rightarrow> s | None \<Rightarrow> [])"

text \<open>The second loop of \<open>formatConfig\<close>: an empty id is skipped, the others are set.\<close>

fun uniq_loop ::
  "qqbot_cfg list \<Rightarrow> (js_string \<times> qqbot_cfg) list \<Rightarrow> (js_string \<times> qqbot_cfg) list" where
  "uniq_loop [] uniq = uniq"
| "uniq_loop (c # cs) uniq =
     (let i = cfg_id c in
      if i = [] then uniq_loop cs uniq else uniq_loop cs (map_set uniq i c))"

definition formatConfig :: "qqbot_cfg list \<Rightarrow> qqbot_cfg list" where
  "formatConfig user = map snd (uniq_loop (map format_item user) [])"

text \<open>\<open>Object.keys(cleaned.event).length\<close>\<close>

definition event_keys :: "event_cfg \<Rightarrow> nat" where
  "event_keys e = (if ev_type e = None then 0 else 1) + (if wsUrl e = None then 0 else 1)
     + (if wsToken e = None then 0 else 1)"

definition clean_event :: "event_cfg \<Rightarrow> event_cfg option" where
  "clean_event e =
     (let e1 = (if wsUrl e = wsUrl def_event then e\<lparr>wsUrl := None\<rparr> else e);
          e2 = (if wsToken e1 = wsToken def_event then e1\<lparr>wsToken := None\<rparr> else e1)
      in if ev_type e2 = Some 0 \<and> event_keys e2 = 1 then None else Some e2)"

definition clean_item :: "qqbot_cfg \<Rightarrow> qqbot_cfg" where
  "clean_item item = (let def = getDefaultConfig;
       c1 = (if prodApi item = prodApi def then item\<lparr>prodApi := None\<rparr> else item);
       c2 = (if sandboxApi c1 = sandboxApi def then c1\<lparr>sandboxApi := None\<rparr> else c1);
       c3 = (if tokenApi c2 = tokenApi def then c2\<lparr>tokenApi := None\<rparr> else c2)
     in case event c3 of
          Some e \<Rightarrow> c3\<lparr>event := clean_event e\<rparr>
        | None \<Rightarrow> c3)"

definition cleanConfigForWrite :: "qqbot_cfg list \<Rightarrow> qqbot_cfg list" where
  "cleanConfigForWrite config = map clean_item config"

text \<open>
  \<open>writeConfig\<close> formats, cleans and serialises; what reaches the file is the cleaned list.
\<close>

definition writeConfig :: "qqbot_cfg list \<Rightarrow> qqbot_cfg list" where
  "writeConfig config = cleanConfigForWrite (formatConfig config)"

text \<open>
  What the de-duplication loop keeps true of its map: the keys are distinct, and each is the
  non-empty trimmed id of the record stored under it.
\<close>

definition keyed :: "(js_string \<times> qqbot_cfg) list \<Rightarrow> bool" where
  "keyed m \<longleftrightarrow> distinct (map fst m) \<and> (\<forall>(k, c) \<in> set m. k = cfg_id c \<and> k \<noteq> [])"


section \<open>Gateway session manager (connection/webSocket.ts)\<close>

text \<open>
  The configuration a running bot holds is of the TypeScript type \<open>QQBotConfig\<close>, whose
  keys are all present; these are the keys the session manager reads.
\<close>

record bot_config =
  cfg_appId :: string
  cfg_eventType :: int
  cfg_sandbox :: bool
  cfg_sandboxApi :: string
  cfg_prodApi :: string
  cfg_guildMode :: int

text \<open>
  Modelled from the spec: the enumeration \<open>Opcode\<close> of types/event.ts, which is not among
  the sources. Section 6 of the specification names its members and leaves their numbers
  to the platform; the numbers play no part below. A decoded frame carries the member its
  \<open>op\<close> equals, and \<open>OtherOp\<close> stands for every number that is none of them.
\<close>

datatype opcode = Dispatch | Heartbeat | Identify | Reconnect | InvalidSession | Hello
  | HeartbeatACK | OtherOp int

record frame_data =
  heartbeat_interval :: int
  session_id :: string
  raw :: string

record frame =
  f_op :: opcode
  f_d :: frame_data
  f_t :: "string option"
  f_s :: "int option"

datatype out_frame = IdentifyFrame string "32 word" | HeartbeatFrame int

text \<open>A timer made by \<open>setInterval\<close>: it sends a heartbeat on the socket at the interval.\<close>

datatype timer = HeartbeatTimer nat int

datatype log_level = LDebug | LWarn | LError

text \<open>
  What a callback does to the world outside the three shared maps, in order. Log entries
  keep their level and drop their text.
\<close>

datatype effect =
    SocketRemoveAllListeners nat
  | SocketClose nat
  | SocketSend nat out_frame
  | NewWebSocket string nat
  | EventEmit string frame
  | SetInterval timer
  | ClearInterval timer
  | SetTimeout nat
  | ClearTimeout
  | GetGateway string
  | Sleep nat
  | CreateConnection nat
  | Logger log_level

text \<open>
  An entry of \<open>cache\<close>. Its \<open>close\<close> member is the \<open>close\<close> closure of the session
  that owns the socket, which the socket and the connection id determine.
\<close>

record ws_connection =
  socket :: nat
  connectionId :: nat
  heartbeatTimer :: "timer option"

text \<open>
  The module's shared maps, and \<open>BotMap\<close> (the access tokens cached by
  core/internal/axios), which the session manager only reads.
\<close>

record ws_state =
  cache :: "string \<rightharpoonup> ws_connection"
  attemptSeq :: "string \<rightharpoonup> nat"
  reconnectAttempts :: "string \<rightharpoonup> nat"
  BotMap :: "string \<rightharpoonup> string"

text \<open>
  The variables one call of \<open>createWebSocketConnection\<close> closes over. \<open>resolved\<close> is
  \<open>None\<close> while the promise is pending and holds the value it was resolved with after.
\<close>

record ws_attempt =
  config :: bot_config
  attempt :: nat
  resolved :: "bool option"

text \<open>The variables added once the gateway answered and the socket was made.\<close>

record ws_session = ws_attempt +
  ses_socket :: nat
  ses_connectionId :: nat
  heartbeatInterval :: int
  lastSeq :: int
  isReady :: bool

text \<open>The attempt counter of an identity as the code reads it: \<open>attemptSeq.get(appid) || 0\<close>.\<close>

definition seq_of :: "ws_state \<Rightarrow> string \<Rightarrow> nat" where
  "seq_of st appid = (case attemptSeq st appid of Some k \<Rightarrow> k | None \<Rightarrow> 0)"

definition isStale :: "ws_state \<Rightarrow> 'a ws_attempt_scheme \<Rightarrow> bool" where
  "isStale st a = (attemptSeq st (cfg_appId (config a)) \<noteq> Some (attempt a))"

text \<open>\<open>resolveOnce\<close>; resolving goes through the wrapped \<open>resolve\<close>, which clears the timeout.\<close>

definition resolveOnce :: "'a ws_attempt_scheme \<Rightarrow> bool \<Rightarrow> 'a ws_attempt_scheme \<times> effect list" where
  "resolveOnce a success =
     (if resolved a = None then (a\<lparr>resolved := Some success\<rparr>, [ClearTimeout]) else (a, []))"

text \<open>
  The \<open>close\<close> closure of the session on socket \<open>sock\<close> with connection id \<open>cid\<close>.
\<close>

definition close :: "ws_state \<Rightarrow> string \<Rightarrow> nat \<Rightarrow> nat \<Rightarrow> bool \<Rightarrow> ws_state \<times> effect list" where
  "close st appid sock cid isClose =
     (let fx = [SocketRemoveAllListeners sock, SocketClose sock, Logger LDebug] in
      case cache st appid of
        Some ws \<Rightarrow>
          if connectionId ws = cid
          then (st\<lparr>cache := (cache st)(appid := None)\<rparr>,
                fx @ (case heartbeatTimer ws of Some tm \<Rightarrow> [ClearInterval tm] | None \<Rightarrow> []))
          else (st, fx)
      | None \<Rightarrow> (st, fx))"

subsection \<open>Automatic reconnection\<close>

definition maxAttempts :: nat where
  "maxAttempts = 5"

definition backoff :: "nat \<Rightarrow> nat" where
  "backoff currentAttempt = min (1000 * 2 ^ currentAttempt) 16000"

text \<open>
  \<open>attemptReconnect\<close> up to its first \<open>await\<close>: what a caller that does not await it
  (the frame handler, the close handler) sees happen before it goes on.
\<close>

definition attemptReconnect_begin :: "ws_state \<Rightarrow> string \<Rightarrow> nat \<Rightarrow> ws_state \<times> effect list" where
  "attemptReconnect_begin st appid currentAttempt =
     (if currentAttempt \<ge> maxAttempts
      then (st\<lparr>reconnectAttempts := (reconnectAttempts st)(appid := None)\<rparr>, [Logger LError])
      else (st\<lparr>reconnectAttempts := (reconnectAttempts st)(appid \<mapsto> currentAttempt + 1)\<rparr>,
            [Logger LDebug, Sleep (backoff currentAttempt)]))"

subsection \<open>Opening a connection\<close>

datatype open_result = Returned bool | Awaiting ws_attempt

text \<open>
  \<open>createWebSocketConnection\<close> up to the return of its promise: the two guards, the new
  attempt number, the closing of the cached connection, the 10 second timer and the request
  for the gateway address.
\<close>

definition createWebSocketConnection ::
  "ws_state \<Rightarrow> bot_config \<Rightarrow> ws_state \<times> open_result \<times> effect list" where
  "createWebSocketConnection st cfg =
     (if cfg_appId cfg = ''default'' then (st, Returned False, [])
      else if cfg_eventType cfg \<noteq> 2 then (st, Returned False, [])
      else
        let appid = cfg_appId cfg;
            n = seq_of st appid + 1;
            st1 = st\<lparr>attemptSeq := (attemptSeq st)(appid \<mapsto> n)\<rparr>;
            (st2, fx) = (case cache st1 appid of
                Some existing \<Rightarrow>
                  (let (st', fx') = close st1 appid (socket existing) (connectionId existing) True
                   in (st', Logger LDebug # fx'))
              | None \<Rightarrow> (st1, []))
        in (st2, Awaiting \<lparr>config = cfg, attempt = n, resolved = None\<rparr>,
            fx @ [SetTimeout 10000,
                  GetGateway (if cfg_sandbox cfg then cfg_sandboxApi cfg else cfg_prodApi cfg)]))"

text \<open>The callback of the 10 second timer.\<close>

definition on_timeout :: "'a ws_attempt_scheme \<Rightarrow> 'a ws_attempt_scheme \<times> effect list" where
  "on_timeout a = (let (a', fx) = resolveOnce a False in (a', Logger LError # fx))"

text \<open>
  The \<open>then\<close> callback of \<open>api.getGateway()\<close>. \<open>url\<close> is \<open>gatewayInfo.url\<close>; \<open>sock\<close> and
  \<open>cid\<close> are the new socket and the new symbol, should the callback get that far.
\<close>

definition on_gateway ::
  "ws_state \<Rightarrow> ws_attempt \<Rightarrow> string option \<Rightarrow> nat \<Rightarrow> nat \<Rightarrow> (ws_attempt + ws_session) \<times> effect list" where
  "on_gateway st a url sock cid =
     (if isStale st a then (let (a', fx) = resolveOnce a False in (Inl a', fx))
      else if url = None \<or> url = Some ''''
        then (let (a', fx) = resolveOnce a False in (Inl a', Logger LError # fx))
      else if BotMap st (cfg_appId (config a)) = None \<or> BotMap st (cfg_appId (config a)) = Some ''''
        then (let (a', fx) = resolveOnce a False in (Inl a', Logger LError # fx))
      else (Inr \<lparr>config = config a, attempt = attempt a, resolved = resolved a,
                 ses_socket = sock, ses_connectionId = cid, heartbeatInterval = 0,
                 lastSeq = 0, isReady = False\<rparr>,
            [NewWebSocket (the url) sock]))"

text \<open>The \<open>catch\<close> callback, and the \<open>catch\<close> block around the request, which is the same.\<close>

definition on_catch :: "ws_state \<Rightarrow> 'a ws_attempt_scheme \<Rightarrow> 'a ws_attempt_scheme \<times> effect list" where
  "on_catch st a =
     (if isStale st a then (a, [])
      else (let (a', fx) = resolveOnce a False in (a', Logger LError # fx)))"

subsection \<open>The capability bitmask\<close>

text \<open>
  \<open>buildIntents\<close>. JavaScript's \<open>|\<close> and \<open><<\<close> work on 32-bit integers; the number
  the function returns is the signed reading of the word.
\<close>

definition buildIntents :: "bot_config \<Rightarrow> 32 word" where
  "buildIntents cfg =
     (let intents = 0;
          intents = intents OR push_bit 0 1;
          intents = intents OR push_bit 1 1;
          intents = intents OR push_bit 12 1;
          intents = intents OR push_bit 25 1
      in if cfg_guildMode cfg = 1 then intents OR push_bit 9 1 else intents OR push_bit 30 1)"

subsection \<open>Frames\<close>

text \<open>The template literal \<open>`QQBot ${accessToken}`\<close>.\<close>

definition identify_token :: "string option \<Rightarrow> string" where
  "identify_token accessToken =
     ''QQBot '' @ (case accessToken of Some tok \<Rightarrow> tok | None \<Rightarrow> ''undefined'')"

text \<open>
  The third closure handed to \<open>handleWebSocketMessage\<close>: it records the interval, clears
  the timer of the cached connection, starts a new one and stores it in the cached
  connection.
\<close>

definition setHeartbeatInterval ::
  "ws_state \<Rightarrow> ws_session \<Rightarrow> int \<Rightarrow> ws_state \<times> ws_session \<times> effect list" where
  "setHeartbeatInterval st ses interval =
     (let appid = cfg_appId (config ses);
          ses1 = ses\<lparr>heartbeatInterval := interval\<rparr>;
          fx = (case cache st appid of
                  Some ws \<Rightarrow> (case heartbeatTimer ws of Some tm \<Rightarrow> [ClearInterval tm] | None \<Rightarrow> [])
                | None \<Rightarrow> []);
          tm = HeartbeatTimer (ses_socket ses) interval;
          st1 = (case cache st appid of
                   Some wsData \<Rightarrow> st\<lparr>cache := (cache st)(appid \<mapsto> wsData\<lparr>heartbeatTimer := Some tm\<rparr>)\<rparr>
                 | None \<Rightarrow> st)
      in (st1, ses1, fx @ [SetInterval tm]))"

text \<open>
  \<open>handleWebSocketMessage\<close> of connection/webSocket.ts, with the closures of the message
  listener put in: \<open>setSeq\<close> writes \<open>lastSeq\<close>, \<open>setSessionId\<close> does nothing.
\<close>

definition handleWebSocketMessage ::
  "ws_state \<Rightarrow> ws_session \<Rightarrow> frame \<Rightarrow> ws_state \<times> ws_session \<times> effect list" where
  "handleWebSocketMessage st ses data =
     (let appid = cfg_appId (config ses);
          accessToken = BotMap st appid;
          ses1 = (case f_s data of Some sq \<Rightarrow> ses\<lparr>lastSeq := sq\<rparr> | None \<Rightarrow> ses)
      in case f_op data of
           Hello \<Rightarrow>
             (let (st', ses', fx) = setHeartbeatInterval st ses1 (heartbeat_interval (f_d data))
              in (st', ses', Logger LDebug # fx @
                    [SocketSend (ses_socket ses)
                       (IdentifyFrame (identify_token accessToken) (buildIntents (config ses))),
                     Logger LDebug]))
         | Dispatch \<Rightarrow>
             (st, ses1, (if f_t data = Some ''READY'' then [Logger LDebug] else [])
                          @ [EventEmit appid data])
         | HeartbeatACK \<Rightarrow> (st, ses1, [Logger LDebug])
         | Reconnect \<Rightarrow>
             (let (st', fx) = attemptReconnect_begin st appid 0
              in (st', ses1, [Logger LWarn, SocketClose (ses_socket ses)] @ fx))
         | InvalidSession \<Rightarrow> (st, ses1, [Logger LError, SocketClose (ses_socket ses)])
         | _ \<Rightarrow> (st, ses1, [Logger LDebug]))"

text \<open>
  \<open>handleWebSocketMessage\<close> as the file unnamed/part_000 has it: the Identify frame
  carries the literal 33558531, and a Reconnect frame only closes the socket.
\<close>

definition handleWebSocketMessage_part000 ::
  "ws_state \<Rightarrow> ws_session \<Rightarrow> frame \<Rightarrow> ws_state \<times> ws_session \<times> effect list" where
  "handleWebSocketMessage_part000 st ses data =
     (let appid = cfg_appId (config ses);
          accessToken = BotMap st appid;
          ses1 = (case f_s data of Some sq \<Rightarrow> ses\<lparr>lastSeq := sq\<rparr> | None \<Rightarrow> ses)
      in case f_op data of
           Hello \<Rightarrow>
             (let (st', ses', fx) = setHeartbeatInterval st ses1 (heartbeat_interval (f_d data))
              in (st', ses', Logger LDebug # fx @
                    [SocketSend (ses_socket ses)
                       (IdentifyFrame (identify_token accessToken) 33558531),
                     Logger LDebug]))
         | Dispatch \<Rightarrow>
             (st, ses1, (if f_t data = Some ''READY'' then [Logger LDebug] else [])
                          @ [EventEmit appid data])
         | HeartbeatACK \<Rightarrow> (st, ses1, [Logger LDebug])
         | Reconnect \<Rightarrow> (st, ses1, [Logger LWarn, SocketClose (ses_socket ses)])
         | InvalidSession \<Rightarrow> (st, ses1, [Logger LError, SocketClose (ses_socket ses)])
         | _ \<Rightarrow> (st, ses1, [Logger LDebug]))"

subsection \<open>The socket's listeners\<close>

text \<open>
  The \<open>message\<close> listener, on a frame that \<open>JSON.parse\<close> decoded.
\<close>

definition on_message ::
  "ws_state \<Rightarrow> ws_session \<Rightarrow> frame \<Rightarrow> ws_state \<times> ws_session \<times> effect list" where
  "on_message st ses data =
     (if isStale st ses then (st, ses, [])
      else case cache st (cfg_appId (config ses)) of
        None \<Rightarrow> (st, ses, [])
      | Some current \<Rightarrow>
          if socket current \<noteq> ses_socket ses \<or> connectionId current \<noteq> ses_connectionId ses
          then (st, ses, [])
          else
            let (ses1, fx1) =
                  (if f_op data = Dispatch \<and> f_t data = Some ''READY''
                   then (let (s', fx) = resolveOnce (ses\<lparr>isReady := True\<rparr>) True
                         in (s', Logger LDebug # fx))
                   else (ses, []));
                (st', ses2, fx2) = handleWebSocketMessage st ses1 data
            in (st', ses2, fx1 @ fx2))"

definition on_close ::
  "ws_state \<Rightarrow> ws_session \<Rightarrow> int \<Rightarrow> ws_state \<times> ws_session \<times> effect list" where
  "on_close st ses code =
     (if isStale st ses then (st, ses, [])
      else
        let appid = cfg_appId (config ses);
            wasReady = isReady ses;
            (st1, fx1) = close st appid (ses_socket ses) (ses_connectionId ses) False;
            (ses1, fx2) = resolveOnce ses False
        in if wasReady \<and> code \<noteq> 1000 \<and> code \<noteq> 1001
           then (let (st2, fx3) = attemptReconnect_begin st1 appid 0
                 in (st2, ses1, fx1 @ fx2 @ fx3))
           else (st1, ses1, fx1 @ fx2))"

definition on_error :: "ws_state \<Rightarrow> ws_session \<Rightarrow> ws_state \<times> ws_session \<times> effect list" where
  "on_error st ses =
     (if isStale st ses then (st, ses, [])
      else
        let (st1, fx1) = close st (cfg_appId (config ses)) (ses_socket ses) (ses_connectionId ses) False;
            (ses1, fx2) = resolveOnce ses False
        in (st1, ses1, Logger LError # fx1 @ fx2))"

definition on_open :: "ws_state \<Rightarrow> ws_session \<Rightarrow> ws_state \<times> ws_session \<times> effect list" where
  "on_open st ses =
     (if isStale st ses
      then (st, ses, [SocketRemoveAllListeners (ses_socket ses), SocketClose (ses_socket ses)])
      else (st\<lparr>cache := (cache st)(cfg_appId (config ses) \<mapsto>
                 \<lparr>socket = ses_socket ses, connectionId = ses_connectionId ses,
                  heartbeatTimer = None\<rparr>)\<rparr>,
            ses, [Logger LDebug]))"

subsection \<open>Stopping\<close>

definition stopWebSocketConnection :: "ws_state \<Rightarrow> string \<Rightarrow> ws_state \<times> bool \<times> effect list" where
  "stopWebSocketConnection st appid =
     (let st1 = st\<lparr>attemptSeq := (attemptSeq st)(appid \<mapsto> seq_of st appid + 1)\<rparr>;
          st2 = st1\<lparr>reconnectAttempts := (reconnectAttempts st1)(appid := None)\<rparr>
      in case cache st2 appid of
           Some result \<Rightarrow>
             (let (st3, fx) = close st2 appid (socket result) (connectionId result) True
              in (st3, True, fx))
         | None \<Rightarrow> (st2, False, []))"

subsection \<open>Events of one session, and operations on the shared maps\<close>

text \<open>
  What can call back into one session once its socket exists: the socket's four events and
  the 10 second timer of its attempt.
\<close>

datatype ws_event = EvOpen | EvMessage frame | EvClose int | EvError | EvTimeout

fun ws_on :: "ws_state \<Rightarrow> ws_session \<Rightarrow> ws_event \<Rightarrow> ws_state \<times> ws_session \<times> effect list" where
  "ws_on st ses EvOpen = on_open st ses"
| "ws_on st ses (EvMessage data) = on_message st ses data"
| "ws_on st ses (EvClose code) = on_close st ses code"
| "ws_on st ses EvError = on_error st ses"
| "ws_on st ses EvTimeout = (let (ses', fx) = on_timeout ses in (st, ses', fx))"

fun ws_run :: "ws_state \<Rightarrow> ws_session \<Rightarrow> ws_event list \<Rightarrow> ws_state \<times> ws_session \<times> effect list" where
  "ws_run st ses [] = (st, ses, [])"
| "ws_run st ses (e # es) =
     (let (st1, ses1, fx1) = ws_on st ses e;
          (st2, ses2, fx2) = ws_run st1 ses1 es
      in (st2, ses2, fx1 @ fx2))"

text \<open>
  A session is the live one of its identity when its attempt is the current one and the
  cached connection is its own: the two checks at the head of the \<open>message\<close> listener.
\<close>

definition live :: "ws_state \<Rightarrow> ws_session \<Rightarrow> bool" where
  "live st ses =
     (\<not> isStale st ses \<and>
      (case cache st (cfg_appId (config ses)) of
         Some current \<Rightarrow>
           socket current = ses_socket ses \<and> connectionId current = ses_connectionId ses
       | None \<Rightarrow> False))"

text \<open>
  Everything in the module that writes the shared maps, as one operation each: a call of
  \<open>createWebSocketConnection\<close> or \<open>stopWebSocketConnection\<close>, an event of any session,
  \<open>attemptReconnect\<close> entered with a count, and \<open>clearReconnectCount\<close>.
\<close>

datatype ws_op =
    OpCreate bot_config
  | OpStop string
  | OpSocket ws_session ws_event
  | OpReconnect string nat
  | OpClearReconnectCount string

fun ws_step :: "ws_state \<Rightarrow> ws_op \<Rightarrow> ws_state" where
  "ws_step st (OpCreate cfg) = fst (createWebSocketConnection st cfg)"
| "ws_step st (OpStop appid) = fst (stopWebSocketConnection st appid)"
| "ws_step st (OpSocket ses e) = fst (ws_on st ses e)"
| "ws_step st (OpReconnect appid n) = fst (attemptReconnect_begin st appid n)"
| "ws_step st (OpClearReconnectCount appid) =
     st\<lparr>reconnectAttempts := (reconnectAttempts st)(appid := None)\<rparr>"

text \<open>
  The runs of the module. Besides the shared maps, a world remembers which connection id
  the session of each attempt got (\<open>w_owner\<close>; nothing in the code reads it). A run
  starts with empty maps; then \<open>createWebSocketConnection\<close> or
  \<open>stopWebSocketConnection\<close> is called, the gateway answers an attempt that has no
  session yet and a session is made, an event of a session that was made arrives,
  \<open>attemptReconnect\<close> is entered or clears its counter, or a token is cached.
\<close>

record world =
  w_state :: ws_state
  w_owner :: "string \<Rightarrow> nat \<rightharpoonup> nat"

definition owned :: "world \<Rightarrow> ws_session \<Rightarrow> bool" where
  "owned w ses = (w_owner w (cfg_appId (config ses)) (attempt ses) = Some (ses_connectionId ses))"

inductive reachable :: "world \<Rightarrow> bool" where
  start:
    "reachable \<lparr>w_state = \<lparr>cache = Map.empty, attemptSeq = Map.empty,
        reconnectAttempts = Map.empty, BotMap = Map.empty\<rparr>, w_owner = (\<lambda>appid. Map.empty)\<rparr>"
| token:
    "reachable w \<Longrightarrow> reachable (w\<lparr>w_state := (w_state w)\<lparr>BotMap := tokens\<rparr>\<rparr>)"
| step:
    "reachable w \<Longrightarrow> (\<forall>ses e. op = OpSocket ses e \<longrightarrow> owned w ses) \<Longrightarrow>
       reachable (w\<lparr>w_state := ws_step (w_state w) op\<rparr>)"
| gateway:
    "reachable w \<Longrightarrow> w_owner w (cfg_appId (config a)) (attempt a) = None \<Longrightarrow>
       on_gateway (w_state w) a url sock cid = (Inr ses, fx) \<Longrightarrow>
       reachable (w\<lparr>w_owner := (w_owner w)(cfg_appId (config a) :=
                     (w_owner w (cfg_appId (config a)))(attempt a \<mapsto> cid))\<rparr>)"

subsection \<open>The reconnection chain\<close>

text \<open>
  \<open>attemptReconnect\<close> in full. At its two \<open>await\<close>s other tasks run:
  \<open>while_sleeping\<close> is what they have made of the shared maps when the back-off of
  attempt \<open>n\<close> is over, \<open>await_open\<close> is what the pending connection of attempt \<open>n\<close>
  resolved with and the maps then. The result names the \<open>return\<close> the chain left by.
\<close>

record reconnect_env =
  while_sleeping :: "nat \<Rightarrow> ws_state \<Rightarrow> ws_state"
  await_open :: "nat \<Rightarrow> ws_attempt \<Rightarrow> ws_state \<Rightarrow> bool \<times> ws_state"

datatype reconnect_exit = GaveUp | Superseded | Reconnected

function attemptReconnect ::
  "reconnect_env \<Rightarrow> bot_config \<Rightarrow> nat \<Rightarrow> ws_state \<Rightarrow> ws_state \<times> reconnect_exit \<times> effect list" where
  "attemptReconnect env cfg currentAttempt st =
     (if currentAttempt \<ge> maxAttempts
      then (let (st0, fx0) = attemptReconnect_begin st (cfg_appId cfg) currentAttempt
            in (st0, GaveUp, fx0))
      else
        let (st1, fx1) = attemptReconnect_begin st (cfg_appId cfg) currentAttempt;
            n = currentAttempt + 1;
            st2 = while_sleeping env n st1
        in if reconnectAttempts st2 (cfg_appId cfg) \<noteq> Some n then (st2, Superseded, fx1)
           else
             let (st3, r, fx3) = createWebSocketConnection st2 cfg;
                 (success, st4) = (case r of Returned b \<Rightarrow> (b, st3)
                                   | Awaiting a \<Rightarrow> await_open env n a st3)
             in if \<not> success
                then (let (st5, ex, fx5) = attemptReconnect env cfg n st4
                      in (st5, ex, fx1 @ CreateConnection n # fx3 @ Logger LWarn # fx5))
                else (st4\<lparr>reconnectAttempts := (reconnectAttempts st4)(cfg_appId cfg := None)\<rparr>,
                      Reconnected, fx1 @ CreateConnection n # fx3 @ [Logger LDebug]))"
  by pat_completeness auto
termination
  by (relation "measure (\<lambda>(env, cfg, currentAttempt, st). maxAttempts - currentAttempt)") auto

text \<open>
  The second \<open>await\<close> of the chain on its own: whether the connection of attempt \<open>n\<close>
  succeeded, and the shared maps then.
\<close>

definition connected ::
  "reconnect_env \<Rightarrow> bot_config \<Rightarrow> nat \<Rightarrow> ws_state \<Rightarrow> bool \<times> ws_state" where
  "connected env cfg n st2 =
     (case fst (snd (createWebSocketConnection st2 cfg)) of
        Returned b \<Rightarrow> (b, fst (createWebSocketConnection st2 cfg))
      | Awaiting a \<Rightarrow> await_open env n a (fst (createWebSocketConnection st2 cfg)))"

text \<open>The back-off delays and the connection attempts in a list of effects.\<close>

fun sleeps :: "effect list \<Rightarrow> nat list" where
  "sleeps [] = []"
| "sleeps (Sleep d # fx) = d # sleeps fx"
| "sleeps (_ # fx) = sleeps fx"

fun creations :: "effect list \<Rightarrow> nat list" where
  "creations [] = []"
| "creations (CreateConnection n # fx) = n # creations fx"
| "creations (_ # fx) = creations fx"

text \<open>
  The contract of the open operation in the words of the specification: true if and only
  if the ready acknowledgment is observed before the 10 second timer fires; a close or an
  error before it gives false.
\<close>

definition is_ready_frame :: "frame \<Rightarrow> bool" where
  "is_ready_frame data = (f_op data = Dispatch \<and> f_t data = Some ''READY'')"



subsection \<open>Example inputs\<close>

definition ex_cfg :: bot_config where
  "ex_cfg = \<lparr>cfg_appId = ''102'', cfg_eventType = 2, cfg_sandbox = False,
     cfg_sandboxApi = ''https://sandbox.api.sgroup.qq.com'',
     cfg_prodApi = ''https://api.sgroup.qq.com'', cfg_guildMode = 0\<rparr>"

definition ex_st0 :: ws_state where
  "ex_st0 = \<lparr>cache = Map.empty, attemptSeq = Map.empty, reconnectAttempts = Map.empty,
     BotMap = [''102'' \<mapsto> ''tok'']\<rparr>"

definition ex_st1 :: ws_state where
  "ex_st1 = ex_st0\<lparr>attemptSeq := [''102'' \<mapsto> 1]\<rparr>"

definition ex_attempt :: ws_attempt where
  "ex_attempt = \<lparr>config = ex_cfg, attempt = 1, resolved = None\<rparr>"

definition ex_session :: ws_session where
  "ex_session = \<lparr>config = ex_cfg, attempt = 1, resolved = None, ses_socket = 7,
     ses_connectionId = 3, heartbeatInterval = 0, lastSeq = 0, isReady = False\<rparr>"

text \<open>The shared maps once the socket of \<open>ex_session\<close> has opened.\<close>

definition ex_live :: ws_state where
  "ex_live = ex_st1\<lparr>cache := [''102'' \<mapsto>
     \<lparr>socket = 7, connectionId = 3, heartbeatTimer = None\<rparr>]\<rparr>"

definition ex_frame :: "opcode \<Rightarrow> string option \<Rightarrow> frame" where
  "ex_frame oc ty = \<lparr>f_op = oc,
     f_d = \<lparr>heartbeat_interval = 41250, session_id = ''s1'', raw = []\<rparr>,
     f_t = ty, f_s = None\<rparr>"

text \<open>
  A world after two connections of identity 102: the first attempt made \<open>ex_session\<close>
  (connection id 3), the second attempt a session on socket 8 with connection id 4, whose
  connection is the cached one.
\<close>

definition ex_session2 :: ws_session where
  "ex_session2 = \<lparr>config = ex_cfg, attempt = 2, resolved = None, ses_socket = 8,
     ses_connectionId = 4, heartbeatInterval = 0, lastSeq = 0, isReady = False\<rparr>"

definition ex_world :: world where
  "ex_world = \<lparr>w_state = ex_st0\<lparr>attemptSeq := [''102'' \<mapsto> 2],
       cache := [''102'' \<mapsto> \<lparr>socket = 8, connectionId = 4, heartbeatTimer = None\<rparr>]\<rparr>,
     w_owner = (\<lambda>appid. Map.empty)(''102'' := [1 \<mapsto> 3, 2 \<mapsto> 4])\<rparr>"


subsection \<open>Calls in flight\<close>

text \<open>
  The module runs on one thread: a callback runs to its end, and a call suspended at an
  \<open>await\<close> goes on, also to its next \<open>await\<close> or its end, once the promise it waits for
  is resolved and before any other timer or socket event. So the module's run is a
  sequence of turns over the shared maps. A pool holds what is in flight between the
  turns: the calls of \<open>createWebSocketConnection\<close> and the calls of \<open>attemptReconnect\<close>.

  A call of \<open>createWebSocketConnection\<close> whose promise was returned is waiting for the
  gateway address (\<open>Asked\<close>), has had its answer without making a socket (\<open>Gone\<close>), or has
  made its socket (\<open>Made\<close>). Its promise is the \<open>resolved\<close> of its variables.
\<close>

datatype pending = Asked ws_attempt | Gone ws_attempt | Made ws_session

definition promise :: "pending \<Rightarrow> bool option" where
  "promise p = (case p of Asked a \<Rightarrow> resolved a | Gone a \<Rightarrow> resolved a | Made ses \<Rightarrow> resolved ses)"

definition config_of :: "pending \<Rightarrow> bot_config" where
  "config_of p = (case p of Asked a \<Rightarrow> config a | Gone a \<Rightarrow> config a | Made ses \<Rightarrow> config ses)"

text \<open>
  What calls back into such a call: the gateway's answer with the socket and the symbol
  that are made for it, the rejection of the request, and the events of \<open>ws_event\<close>, of
  which only the 10 second timer exists while there is no socket.
\<close>

datatype pending_event = Answer "string option" nat nat | Rejected | Ev ws_event

fun pending_on :: "ws_state \<Rightarrow> pending \<Rightarrow> pending_event \<Rightarrow> ws_state \<times> pending \<times> effect list" where
  "pending_on st (Asked a) (Answer url sock cid) =
     (case on_gateway st a url sock cid of
        (Inl a', fx) \<Rightarrow> (st, Gone a', fx)
      | (Inr ses, fx) \<Rightarrow> (st, Made ses, fx))"
| "pending_on st (Asked a) Rejected = (let (a', fx) = on_catch st a in (st, Gone a', fx))"
| "pending_on st (Asked a) (Ev EvTimeout) = (let (a', fx) = on_timeout a in (st, Asked a', fx))"
| "pending_on st (Gone a) (Ev EvTimeout) = (let (a', fx) = on_timeout a in (st, Gone a', fx))"
| "pending_on st (Made ses) (Ev e) = (let (st', ses', fx) = ws_on st ses e in (st', Made ses', fx))"
| "pending_on st p e = (st, p, [])"

text \<open>
  A call of \<open>attemptReconnect\<close>, with the calls it makes of itself, is a chain. Between
  turns a chain is in its back-off with attempt number \<open>n\<close> registered (\<open>Sleeping\<close>), waits
  for the connection of attempt \<open>n\<close>, which is the pending call with the given index
  (\<open>Opening\<close>), or has returned (\<open>Ended\<close>).
\<close>

datatype chain = Sleeping bot_config nat | Opening bot_config nat nat | Ended reconnect_exit

text \<open>\<open>attemptReconnect(config, client, currentAttempt)\<close> from its entry to its first \<open>await\<close>.\<close>

definition chain_enter :: "ws_state \<Rightarrow> bot_config \<Rightarrow> nat \<Rightarrow> ws_state \<times> chain \<times> effect list" where
  "chain_enter st cfg currentAttempt =
     (let (st1, fx) = attemptReconnect_begin st (cfg_appId cfg) currentAttempt
      in (st1,
          if currentAttempt \<ge> maxAttempts then Ended GaveUp
          else Sleeping cfg (currentAttempt + 1),
          fx))"

text \<open>
  From the value of \<open>await createWebSocketConnection(config, client)\<close> to the end of the
  call: on failure the call of itself with the attempt number, which runs to its first
  \<open>await\<close>; on success the counter is deleted.
\<close>

definition chain_settle :: "ws_state \<Rightarrow> bot_config \<Rightarrow> nat \<Rightarrow> bool \<Rightarrow> ws_state \<times> chain \<times> effect list" where
  "chain_settle st cfg n success =
     (if \<not> success
      then (let (st1, c, fx) = chain_enter st cfg n in (st1, c, Logger LWarn # fx))
      else (st\<lparr>reconnectAttempts := (reconnectAttempts st)(cfg_appId cfg := None)\<rparr>,
            Ended Reconnected, [Logger LDebug]))"

text \<open>
  From the end of the back-off to the second \<open>await\<close>: the check of the registered
  counter, then the call of \<open>createWebSocketConnection\<close>. \<open>j\<close> is the index the new
  pending call gets. A call that returned at a guard is settled in the same turn.
\<close>

definition chain_wake ::
  "ws_state \<Rightarrow> nat \<Rightarrow> bot_config \<Rightarrow> nat \<Rightarrow> ws_state \<times> chain \<times> pending list \<times> effect list" where
  "chain_wake st j cfg n =
     (if reconnectAttempts st (cfg_appId cfg) \<noteq> Some n then (st, Ended Superseded, [], [])
      else
        let (st3, r, fx3) = createWebSocketConnection st cfg
        in case r of
             Returned b \<Rightarrow>
               (let (st4, c, fx4) = chain_settle st3 cfg n b
                in (st4, c, [], CreateConnection n # fx3 @ fx4))
           | Awaiting a \<Rightarrow> (st3, Opening cfg n j, [Asked a], CreateConnection n # fx3))"

text \<open>
  The chains that wait for pending call \<open>j\<close> go on with the value \<open>b\<close> its promise was
  resolved with.
\<close>

fun settle_awaiting :: "ws_state \<Rightarrow> nat \<Rightarrow> bool \<Rightarrow> chain list \<Rightarrow> ws_state \<times> chain list \<times> effect list" where
  "settle_awaiting st j b [] = (st, [], [])"
| "settle_awaiting st j b (Opening cfg n i # cs) =
     (if i = j
      then (let (st1, c1, fx1) = chain_settle st cfg n b;
                (st2, cs2, fx2) = settle_awaiting st1 j b cs
            in (st2, c1 # cs2, fx1 @ fx2))
      else (let (st2, cs2, fx2) = settle_awaiting st j b cs
            in (st2, Opening cfg n i # cs2, fx2)))"
| "settle_awaiting st j b (c # cs) =
     (let (st2, cs2, fx2) = settle_awaiting st j b cs in (st2, c # cs2, fx2))"

text \<open>
  The chains a listener started: \<open>on_message\<close> and \<open>on_close\<close> call \<open>attemptReconnect\<close>
  with count 0 and do not wait for it, and every \<open>Sleep\<close> among their effects is the first
  \<open>await\<close> of such a call.
\<close>

definition entered :: "bot_config \<Rightarrow> effect list \<Rightarrow> chain list" where
  "entered cfg fx = map (\<lambda>d. Sleeping cfg 1) (sleeps fx)"

record pool =
  p_state :: ws_state
  p_pending :: "pending list"
  p_chains :: "chain list"

text \<open>
  A turn: \<open>createWebSocketConnection\<close> is called from outside (\<open>createBot\<close>), something
  calls back into a pending call, or the back-off of a chain ends.
\<close>

datatype pool_event = Call bot_config | Deliver nat pending_event | Wake nat

fun pool_on :: "pool \<Rightarrow> pool_event \<Rightarrow> pool \<times> effect list" where
  "pool_on p (Call cfg) =
     (let (st, r, fx) = createWebSocketConnection (p_state p) cfg
      in (p\<lparr>p_state := st,
            p_pending := p_pending p @ (case r of Awaiting a \<Rightarrow> [Asked a] | Returned b \<Rightarrow> [])\<rparr>,
          fx))"
| "pool_on p (Deliver j e) =
     (if j < length (p_pending p)
      then
        let old = p_pending p ! j;
            (st1, new, fx1) = pending_on (p_state p) old e;
            (st2, cs, fx2) =
               (case (promise old, promise new) of
                  (None, Some b) \<Rightarrow> settle_awaiting st1 j b (p_chains p)
                | _ \<Rightarrow> (st1, p_chains p, []))
        in (\<lparr>p_state = st2, p_pending = (p_pending p)[j := new],
             p_chains = cs @ entered (config_of new) fx1\<rparr>,
            fx1 @ fx2)
      else (p, []))"
| "pool_on p (Wake i) =
     (if i < length (p_chains p)
      then (case p_chains p ! i of
              Sleeping cfg n \<Rightarrow>
                (let (st, c, new, fx) = chain_wake (p_state p) (length (p_pending p)) cfg n
                 in (\<lparr>p_state = st, p_pending = p_pending p @ new,
                      p_chains = (p_chains p)[i := c]\<rparr>,
                     fx))
            | _ \<Rightarrow> (p, []))
      else (p, []))"

fun pool_run :: "pool \<Rightarrow> pool_event list \<Rightarrow> pool \<times> effect list" where
  "pool_run p [] = (p, [])"
| "pool_run p (e # es) =
     (let (p1, fx1) = pool_on p e;
          (p2, fx2) = pool_run p1 es
      in (p2, fx1 @ fx2))"

text \<open>
  A run of identity 102 from the empty maps. The bot connects and gets READY. The server
  then sends a Reconnect frame, and the close event of the socket follows with code 1005.
  After that the gateway still answers but no socket can be opened: in round \<open>k\<close> both
  chains end their back-off and call \<open>createWebSocketConnection\<close>, the gateway answers
  both calls, and the socket of the later call, the only one that is made, fails.
\<close>

definition ex_url :: string where
  "ex_url = ''wss://api.sgroup.qq.com/websocket''"

definition ex_pool :: pool where
  "ex_pool = \<lparr>p_state = ex_st0, p_pending = [], p_chains = []\<rparr>"

definition ex_connect :: "pool_event list" where
  "ex_connect = [Call ex_cfg, Deliver 0 (Answer (Some ex_url) 7 3), Deliver 0 (Ev EvOpen),
     Deliver 0 (Ev (EvMessage (ex_frame Hello None))),
     Deliver 0 (Ev (EvMessage (ex_frame Dispatch (Some ''READY''))))]"

definition ex_reconnect_frame :: "pool_event list" where
  "ex_reconnect_frame = [Deliver 0 (Ev (EvMessage (ex_frame Reconnect None))),
     Deliver 0 (Ev (EvClose 1005))]"

definition ex_round :: "nat \<Rightarrow> pool_event list" where
  "ex_round k = [Wake 0, Wake 1,
     Deliver (2 * k - 1) (Answer (Some ex_url) (6 + 2 * k) (2 + 2 * k)),
     Deliver (2 * k) (Answer (Some ex_url) (7 + 2 * k) (3 + 2 * k)),
     Deliver (2 * k) (Ev EvError)]"

definition ex_outage :: "pool_event list" where
  "ex_outage = ex_connect @ ex_reconnect_frame @ concat (map ex_round [1, 2, 3, 4, 5])"


section \<open>Outbound message composer (core/adapter/normal.ts, core/adapter/markdown.ts)\<close>

datatype scene = Friend | Group | Guild | Direct

record contact =
  c_scene :: scene
  c_peer :: string
  c_subPeer :: string

datatype pasmsg_type = PMsg | PEvent

text \<open>
  The message elements the composer looks at, by their \<open>type\<close> tag; \<open>ElOther\<close> is an
  element with any other tag. A \<open>pasmsg\<close> element carries its id, whether its source is
  \<open>event\<close>, and its \<open>is_wakeup\<close> flag.
\<close>

datatype element =
    ElText string
  | ElAt string
  | ElImage string
  | ElFace string
  | ElReply string
  | ElPasmsg string bool bool
  | ElKeyboard string
  | ElButton string
  | ElMarkdown string
  | ElMarkdownTpl string
  | ElVideo string
  | ElRecord string
  | ElOther string

fun el_type :: "element \<Rightarrow> string" where
  "el_type (ElText _) = ''text''"
| "el_type (ElAt _) = ''at''"
| "el_type (ElImage _) = ''image''"
| "el_type (ElFace _) = ''face''"
| "el_type (ElReply _) = ''reply''"
| "el_type (ElPasmsg _ _ _) = ''pasmsg''"
| "el_type (ElKeyboard _) = ''keyboard''"
| "el_type (ElButton _) = ''button''"
| "el_type (ElMarkdown _) = ''markdown''"
| "el_type (ElMarkdownTpl _) = ''markdownTpl''"
| "el_type (ElVideo _) = ''video''"
| "el_type (ElRecord _) = ''record''"
| "el_type (ElOther ty) = ty"

text \<open>A rejected promise or a thrown exception of a collaborator, by the collaborator's name.\<close>

datatype adapter_error = Thrown string

type_synonym log_entry = "log_level \<times> string"

text \<open>
  A payload for the private-chat and group endpoints (\<open>SendQQMsg\<close>): what
  \<open>QQdMsgOptions\<close> made of it, and the four keys the passive-reply binding writes.
\<close>

record qq_msg =
  q_kind :: string
  q_content :: string
  msg_seq :: "int option"
  msg_id :: "string option"
  event_id :: "string option"
  is_wakeup :: "bool option"

text \<open>A payload for the guild endpoints: a \<open>SendGuildMsg\<close> object or a \<open>FormData\<close>.\<close>

record guild_obj =
  g_kind :: string
  g_content :: string
  g_image :: "string option"
  g_msg_id :: "string option"
  g_event_id :: "string option"

datatype form_field =
    FContent string
  | FFileImage "nat list" string string
  | FMsgId string
  | FEventId string

datatype guild_msg = GObj guild_obj | GForm "form_field list"

record pasmsg_draft =
  pm_type :: pasmsg_type
  pm_msg_id :: string
  pm_msg_seq :: int
  pm_is_wakeup :: bool

text \<open>
  The accumulator \<open>initList\<close> returns, with the buckets the two send functions use. The
  list of payloads is \<open>d_list\<close>; its element type differs between the two surfaces.
\<close>

record 'p draft =
  d_content :: "string list"
  d_image :: "string list"
  d_imageUrls :: "string list"
  d_imageFiles :: "string list"
  d_pasmsg :: pasmsg_draft
  d_reply :: "string option"
  d_keyboard :: "string list"
  d_button :: "string list"
  d_markdown :: "string list"
  d_markdownTpl :: "string list"
  d_list :: "'p list"

text \<open>
  What the adapter calls and this repository's sources do not hold: the configuration's
  exclusion list, the URL finder, regular-expression replacement, QR rendering and merging,
  file and media helpers, the payload constructors and \<open>initList\<close> of
  core/adapter/adapter.ts with its \<open>markdownToButton\<close>, and the four send endpoints.
  Each is a parameter; the ones that can throw or reject return a sum.
\<close>

record adapter_env =
  cfg_exclude :: "string list"
  handleUrl :: "string \<Rightarrow> string list \<Rightarrow> string list"
  replaceAll :: "string \<Rightarrow> string \<Rightarrow> string \<Rightarrow> adapter_error + string"
  qrs :: "string list \<Rightarrow> adapter_error + string list"
  mergeImage :: "string list \<Rightarrow> nat \<Rightarrow> adapter_error + string"
  fileToUrl :: "string \<Rightarrow> string \<Rightarrow> string \<Rightarrow> adapter_error + string"
  uploadMedia :: "string \<Rightarrow> string \<Rightarrow> string \<Rightarrow> string \<Rightarrow> adapter_error + string"
  base64 :: "string \<Rightarrow> adapter_error + string"
  buffer :: "string \<Rightarrow> adapter_error + nat list"
  QQdMsgOptions :: "string \<Rightarrow> string \<Rightarrow> qq_msg"
  GuildMsgOptions :: "string \<Rightarrow> string \<Rightarrow> string option \<Rightarrow> guild_obj"
  initList_qq :: "qq_msg draft"
  initList_guild :: "guild_msg draft"
  markdownToButton_qq :: "qq_msg draft \<Rightarrow> qq_msg draft"
  markdownToButton_guild :: "guild_msg draft \<Rightarrow> guild_msg draft"
  sendFriendMsg :: "string \<Rightarrow> qq_msg \<Rightarrow> adapter_error + string"
  sendGroupMsg :: "string \<Rightarrow> qq_msg \<Rightarrow> adapter_error + string"
  sendChannelMsg :: "string \<Rightarrow> guild_msg \<Rightarrow> adapter_error + string"
  sendDmsMsg :: "string \<Rightarrow> guild_msg \<Rightarrow> adapter_error + string"

text \<open>Three literals of the source that are not ASCII, as their UTF-8 bytes.\<close>

definition unsupported_text :: string where
  "unsupported_text = map char_of [228, 184, 141, 230, 148, 175, 230, 140, 129, 229, 143, 145,
     233, 128, 129, 231, 154, 132, 230, 182, 136, 230, 129, 175, 231, 177, 187, 229, 158, 139 :: nat]"

definition scan_placeholder :: string where
  "scan_placeholder = map char_of [91, 232, 175, 183, 230, 137, 171, 231, 160, 129, 230, 159,
     165, 231, 156, 139, 93 :: nat]"

subsection \<open>Image type detection\<close>

definition to_lower :: "char \<Rightarrow> char" where
  "to_lower c =
     (let n = (of_char c :: nat) in if 65 \<le> n \<and> n \<le> 90 then char_of (n + 32) else c)"

definition ends_with :: "string \<Rightarrow> string \<Rightarrow> bool" where
  "ends_with s suffix = (length suffix \<le> length s \<and> drop (length s - length suffix) s = suffix)"

text \<open>\<open>filePath.toLowerCase().match(/\.(jpg|jpeg|png|gif|webp)$/)?.[1]\<close>\<close>

definition path_ext :: "string \<Rightarrow> string option" where
  "path_ext filePath =
     (case filter (\<lambda>ext. ends_with (map to_lower filePath) (''.'' @ ext))
             [''jpg'', ''jpeg'', ''png'', ''gif'', ''webp''] of
        [] \<Rightarrow> None
      | ext # _ \<Rightarrow> Some ext)"

definition mimeMap :: "string \<Rightarrow> string" where
  "mimeMap ext =
     (if ext = ''jpg'' then ''image/jpeg''
      else if ext = ''jpeg'' then ''image/jpeg''
      else if ext = ''png'' then ''image/png''
      else if ext = ''gif'' then ''image/gif''
      else if ext = ''webp'' then ''image/webp''
      else ''image/jpeg'')"

text \<open>\<open>header[i] === b\<close>, false beyond the end of the buffer.\<close>

definition byte_is :: "nat list \<Rightarrow> nat \<Rightarrow> nat \<Rightarrow> bool" where
  "byte_is header i b = (i < length header \<and> header ! i = b)"

definition detectImageType :: "nat list \<Rightarrow> string option \<Rightarrow> string \<times> string" where
  "detectImageType buf filePath =
     (case (case filePath of Some p \<Rightarrow> (if p = [] then None else path_ext p) | None \<Rightarrow> None) of
        Some ext \<Rightarrow> (''image.'' @ ext, mimeMap ext)
      | None \<Rightarrow>
          let header = take 12 buf in
          if byte_is header 0 0x89 \<and> byte_is header 1 0x50 \<and> byte_is header 2 0x4E
             \<and> byte_is header 3 0x47
          then (''image.png'', ''image/png'')
          else if byte_is header 0 0xFF \<and> byte_is header 1 0xD8 \<and> byte_is header 2 0xFF
          then (''image.jpg'', ''image/jpeg'')
          else if byte_is header 0 0x47 \<and> byte_is header 1 0x49 \<and> byte_is header 2 0x46
             \<and> byte_is header 3 0x38
          then (''image.gif'', ''image/gif'')
          else if byte_is header 0 0x52 \<and> byte_is header 1 0x49 \<and> byte_is header 2 0x46
             \<and> byte_is header 3 0x46 \<and> byte_is header 8 0x57 \<and> byte_is header 9 0x45
             \<and> byte_is header 10 0x42 \<and> byte_is header 11 0x50
          then (''image.webp'', ''image/webp'')
          else (''image.jpg'', ''image/jpeg''))"

subsection \<open>Text and QR codes (the direct pipeline's \<open>hendleText\<close>)\<close>

fun replace_urls :: "adapter_env \<Rightarrow> string list \<Rightarrow> string \<Rightarrow> adapter_error + string" where
  "replace_urls env [] text = Inr text"
| "replace_urls env (url # urls) text =
     (case replaceAll env text url scan_placeholder of
        Inl e \<Rightarrow> Inl e
      | Inr text' \<Rightarrow> replace_urls env urls text')"

text \<open>
  The result is the text, \<open>qr\<close>, \<open>qrs\<close> (empty when the key is absent) and what was logged.
\<close>

definition hendleText ::
  "adapter_env \<Rightarrow> string \<Rightarrow> adapter_error + (string \<times> string option \<times> string list \<times> log_entry list)" where
  "hendleText env text =
     (let urls = handleUrl env text (cfg_exclude env) in
      if urls = [] then Inr (text, None, [], [])
      else case replace_urls env urls text of
        Inl e \<Rightarrow> Inl e
      | Inr text' \<Rightarrow>
          (case qrs env urls of
             Inl e \<Rightarrow> Inl e
           | Inr qlist \<Rightarrow>
               if length qlist = 1 then Inr (text', Some (hd qlist), [], [])
               else (case mergeImage env qlist 3 of
                       Inr merged \<Rightarrow> Inr (text', Some merged, [], [])
                     | Inl _ \<Rightarrow> Inr (text', None, qlist, [(LWarn, ''mergeImage'')]))))"

subsection \<open>The direct pipeline: private chat and group (\<open>AdapterQQBotNormal.sendQQMsg\<close>)\<close>

definition upload_target :: "contact \<Rightarrow> string" where
  "upload_target c = (if c_scene c = Friend then ''user'' else ''group'')"

text \<open>The URL of a video or record element: its file if that is remote, an upload of it otherwise.\<close>

definition media_url :: "adapter_env \<Rightarrow> string \<Rightarrow> string \<Rightarrow> adapter_error + string" where
  "media_url env ty file =
     (if take 4 file = ''http'' then Inr file
      else fileToUrl env ty file (ty @ ''.'' @ (if ty = ''record'' then ''mp3'' else ''mp4'')))"

text \<open>The text branch, which both surfaces share: the text is kept, the QR codes go to \<open>image\<close>.\<close>

definition push_text ::
  "adapter_env \<Rightarrow> 'p draft \<Rightarrow> string \<Rightarrow> adapter_error + ('p draft \<times> log_entry list)" where
  "push_text env d text =
     (case hendleText env text of
        Inl e \<Rightarrow> Inl e
      | Inr (text', qr, qrlist, lg) \<Rightarrow>
          let d1 = d\<lparr>d_content := d_content d @ [text']\<rparr> in
          if qr \<noteq> None \<and> qr \<noteq> Some []
          then Inr (d1\<lparr>d_image := d_image d1 @ [the qr]\<rparr>, lg)
          else if qrlist \<noteq> [] then Inr (d1\<lparr>d_image := d_image d1 @ qrlist\<rparr>, lg)
          else Inr (d1, lg))"

text \<open>
  One turn of the loop over the elements. The last equation is the line after all the
  \<open>if\<close>s: the element is logged at debug level and the loop goes on.
\<close>

fun classify_qq ::
  "adapter_env \<Rightarrow> contact \<Rightarrow> qq_msg draft \<Rightarrow> element \<Rightarrow> adapter_error + (qq_msg draft \<times> log_entry list)" where
  "classify_qq env c d (ElText text) = push_text env d text"
| "classify_qq env c d (ElImage file) = Inr (d\<lparr>d_image := d_image d @ [file]\<rparr>, [])"
| "classify_qq env c d (ElReply messageId) =
     (if pm_msg_id (d_pasmsg d) = []
      then Inr (d\<lparr>d_pasmsg := (d_pasmsg d)\<lparr>pm_msg_id := messageId\<rparr>\<rparr>, [])
      else Inr (d, []))"
| "classify_qq env c d (ElPasmsg ident from_event wakeup) =
     (let p1 = (if from_event then (d_pasmsg d)\<lparr>pm_type := PEvent\<rparr> else d_pasmsg d);
          p2 = (if wakeup \<and> c_scene c = Friend
                then p1\<lparr>pm_is_wakeup := True, pm_msg_id := []\<rparr>
                else p1\<lparr>pm_msg_id := ident\<rparr>)
      in Inr (d\<lparr>d_pasmsg := p2\<rparr>, []))"
| "classify_qq env c d (ElKeyboard v) = Inr (d\<lparr>d_keyboard := d_keyboard d @ [v]\<rparr>, [])"
| "classify_qq env c d (ElButton v) = Inr (d\<lparr>d_button := d_button d @ [v]\<rparr>, [])"
| "classify_qq env c d (ElMarkdown v) = Inr (d\<lparr>d_markdown := d_markdown d @ [v]\<rparr>, [])"
| "classify_qq env c d (ElMarkdownTpl v) = Inr (d\<lparr>d_markdownTpl := d_markdownTpl d @ [v]\<rparr>, [])"
| "classify_qq env c d (ElVideo file) =
     (case media_url env ''video'' file of
        Inl e \<Rightarrow> Inl e
      | Inr url \<Rightarrow>
          (case uploadMedia env (upload_target c) (c_peer c) ''video'' url of
             Inl e \<Rightarrow> Inl e
           | Inr file_info \<Rightarrow>
               Inr (d\<lparr>d_list := d_list d @ [QQdMsgOptions env ''media'' file_info]\<rparr>, [])))"
| "classify_qq env c d (ElRecord file) =
     (case media_url env ''record'' file of
        Inl e \<Rightarrow> Inl e
      | Inr url \<Rightarrow>
          (case uploadMedia env (upload_target c) (c_peer c) ''record'' url of
             Inl e \<Rightarrow> Inl e
           | Inr file_info \<Rightarrow>
               Inr (d\<lparr>d_list := d_list d @ [QQdMsgOptions env ''media'' file_info]\<rparr>, [])))"
| "classify_qq env c d v = Inr (d, [(LDebug, el_type v)])"

text \<open>
  The tags \<open>sendQQMsg\<close> has a branch for; an element with any other tag reaches the
  debug log line at the end of the loop body.
\<close>

fun supported_qq :: "element \<Rightarrow> bool" where
  "supported_qq (ElAt _) = False"
| "supported_qq (ElFace _) = False"
| "supported_qq (ElOther _) = False"
| "supported_qq _ = True"

fun qq_loop ::
  "adapter_env \<Rightarrow> contact \<Rightarrow> element list \<Rightarrow> qq_msg draft \<Rightarrow> adapter_error + (qq_msg draft \<times> log_entry list)" where
  "qq_loop env c [] d = Inr (d, [])"
| "qq_loop env c (v # vs) d =
     (case classify_qq env c d v of
        Inl e \<Rightarrow> Inl e
      | Inr (d1, lg1) \<Rightarrow>
          (case qq_loop env c vs d1 of
             Inl e \<Rightarrow> Inl e
           | Inr (d2, lg2) \<Rightarrow> Inr (d2, lg1 @ lg2)))"

text \<open>The loop over \<open>list.image\<close>: each image is read, uploaded and queued as a media payload.\<close>

fun upload_images ::
  "adapter_env \<Rightarrow> contact \<Rightarrow> string list \<Rightarrow> qq_msg list \<Rightarrow> adapter_error + qq_msg list" where
  "upload_images env c [] acc = Inr acc"
| "upload_images env c (url # urls) acc =
     (case base64 env url of
        Inl e \<Rightarrow> Inl e
      | Inr b \<Rightarrow>
          (case uploadMedia env (upload_target c) (c_peer c) ''image'' b of
             Inl e \<Rightarrow> Inl e
           | Inr file_info \<Rightarrow>
               upload_images env c urls (acc @ [QQdMsgOptions env ''media'' file_info])))"

text \<open>
  The passive-reply closure of the direct pipeline. Building it increments
  \<open>list.pasmsg.msg_seq\<close> once; the closure it returns writes that one value into every
  payload it is applied to.
\<close>

definition pasmsg_normal :: "contact \<Rightarrow> pasmsg_draft \<Rightarrow> pasmsg_draft \<times> (qq_msg \<Rightarrow> qq_msg)" where
  "pasmsg_normal c pm =
     (if pm_is_wakeup pm \<and> c_scene c = Friend
      then (pm, \<lambda>item. item\<lparr>is_wakeup := Some True\<rparr>)
      else if pm_msg_id pm = [] then (pm, \<lambda>item. item)
      else
        let pm1 = pm\<lparr>pm_msg_seq := pm_msg_seq pm + 1\<rparr> in
        if pm_type pm1 = PMsg
        then (pm1, \<lambda>item. item\<lparr>msg_seq := Some (pm_msg_seq pm1), msg_id := Some (pm_msg_id pm1)\<rparr>)
        else (pm1, \<lambda>item. item\<lparr>msg_seq := Some (pm_msg_seq pm1), event_id := Some (pm_msg_id pm1)\<rparr>))"

text \<open>
  The final loop: the binding is applied to the payload, the payload is sent, the answer is
  kept. The result pairs every payload, as it was sent, with its answer.
\<close>

fun send_all ::
  "('p \<Rightarrow> adapter_error + string) \<Rightarrow> ('p \<Rightarrow> 'p) \<Rightarrow> 'p list \<Rightarrow> adapter_error + ('p \<times> string) list" where
  "send_all send pasmsg [] = Inr []"
| "send_all send pasmsg (item # items) =
     (let item' = pasmsg item in
      case send item' of
        Inl e \<Rightarrow> Inl e
      | Inr res \<Rightarrow>
          (case send_all send pasmsg items of
             Inl e \<Rightarrow> Inl e
           | Inr rest \<Rightarrow> Inr ((item', res) # rest)))"

definition send_qq :: "adapter_env \<Rightarrow> contact \<Rightarrow> qq_msg \<Rightarrow> adapter_error + string" where
  "send_qq env c =
     (if c_scene c = Friend then sendFriendMsg env (c_peer c) else sendGroupMsg env (c_peer c))"

text \<open>
  \<open>sendQQMsg\<close> between the loop and the binding: the text payload goes to the front,
  the images are uploaded and queued, \<open>markdownToButton\<close> has the last word.
\<close>

definition assemble_qq :: "adapter_env \<Rightarrow> contact \<Rightarrow> qq_msg draft \<Rightarrow> adapter_error + qq_msg draft" where
  "assemble_qq env c d =
     (let d1 = (if d_content d \<noteq> []
                then d\<lparr>d_list := QQdMsgOptions env ''text'' (concat (d_content d)) # d_list d\<rparr>
                else d)
      in case upload_images env c (d_image d1) (d_list d1) of
           Inl e \<Rightarrow> Inl e
         | Inr l2 \<Rightarrow> Inr (markdownToButton_qq env (d1\<lparr>d_list := l2\<rparr>)))"

definition compose_qq ::
  "adapter_env \<Rightarrow> contact \<Rightarrow> element list \<Rightarrow> adapter_error + (qq_msg draft \<times> log_entry list)" where
  "compose_qq env c elements =
     (case qq_loop env c elements (initList_qq env) of
        Inl e \<Rightarrow> Inl e
      | Inr (d, lg) \<Rightarrow>
          (case assemble_qq env c d of
             Inl e \<Rightarrow> Inl e
           | Inr d' \<Rightarrow> Inr (d', lg)))"

text \<open>The rest of \<open>sendQQMsg\<close>: the binding, the fallback payload and the final loop.\<close>

definition deliver_qq ::
  "adapter_env \<Rightarrow> contact \<Rightarrow> qq_msg draft \<Rightarrow> adapter_error + (qq_msg \<times> string) list" where
  "deliver_qq env c d =
     (let (pm, pasmsg) = pasmsg_normal c (d_pasmsg d);
          items = (if d_list d = [] then [QQdMsgOptions env ''text'' unsupported_text] else d_list d)
      in send_all (send_qq env c) pasmsg items)"

definition sendQQMsg ::
  "adapter_env \<Rightarrow> contact \<Rightarrow> element list \<Rightarrow> adapter_error + ((qq_msg \<times> string) list \<times> log_entry list)" where
  "sendQQMsg env c elements =
     (case compose_qq env c elements of
        Inl e \<Rightarrow> Inl e
      | Inr (d, lg) \<Rightarrow>
          (case deliver_qq env c d of
             Inl e \<Rightarrow> Inl e
           | Inr sent \<Rightarrow> Inr (sent, lg)))"

subsection \<open>The direct pipeline: guild channel and guild direct message (\<open>sendGuildMsg\<close>)\<close>

fun classify_guild ::
  "adapter_env \<Rightarrow> contact \<Rightarrow> guild_msg draft \<Rightarrow> element \<Rightarrow> adapter_error + (guild_msg draft \<times> log_entry list)" where
  "classify_guild env c d (ElText text) = push_text env d text"
| "classify_guild env c d (ElImage file) =
     (if take 4 file = ''http''
      then Inr (d\<lparr>d_imageUrls := d_imageUrls d @ [file]\<rparr>, [])
      else Inr (d\<lparr>d_imageFiles := d_imageFiles d @ [file]\<rparr>, []))"
| "classify_guild env c d (ElAt targetId) =
     (if c_scene c = Guild
      then Inr (d\<lparr>d_content := d_content d @
                   [if targetId = ''all'' then ''@everyone'' else ''<@'' @ targetId @ ''>'']\<rparr>, [])
      else Inr (d, []))"
| "classify_guild env c d (ElPasmsg ident from_event wakeup) =
     (let p1 = (if from_event then (d_pasmsg d)\<lparr>pm_type := PEvent\<rparr> else d_pasmsg d)
      in Inr (d\<lparr>d_pasmsg := p1\<lparr>pm_msg_id := ident\<rparr>\<rparr>, []))"
| "classify_guild env c d (ElReply messageId) = Inr (d\<lparr>d_reply := Some messageId\<rparr>, [])"
| "classify_guild env c d (ElFace ident) =
     Inr (d\<lparr>d_content := d_content d @ [''<emoji:'' @ ident @ ''>'']\<rparr>, [])"
| "classify_guild env c d (ElKeyboard v) = Inr (d\<lparr>d_keyboard := d_keyboard d @ [v]\<rparr>, [])"
| "classify_guild env c d (ElButton v) = Inr (d\<lparr>d_button := d_button d @ [v]\<rparr>, [])"
| "classify_guild env c d (ElMarkdown v) = Inr (d\<lparr>d_markdown := d_markdown d @ [v]\<rparr>, [])"
| "classify_guild env c d (ElMarkdownTpl v) = Inr (d\<lparr>d_markdownTpl := d_markdownTpl d @ [v]\<rparr>, [])"
| "classify_guild env c d v = Inr (d, [(LDebug, el_type v)])"

text \<open>The tags \<open>sendGuildMsg\<close> has a branch for.\<close>

fun supported_guild :: "element \<Rightarrow> bool" where
  "supported_guild (ElVideo _) = False"
| "supported_guild (ElRecord _) = False"
| "supported_guild (ElOther _) = False"
| "supported_guild _ = True"

fun guild_loop ::
  "adapter_env \<Rightarrow> contact \<Rightarrow> element list \<Rightarrow> guild_msg draft \<Rightarrow> adapter_error + (guild_msg draft \<times> log_entry list)" where
  "guild_loop env c [] d = Inr (d, [])"
| "guild_loop env c (v # vs) d =
     (case classify_guild env c d v of
        Inl e \<Rightarrow> Inl e
      | Inr (d1, lg1) \<Rightarrow>
          (case guild_loop env c vs d1 of
             Inl e \<Rightarrow> Inl e
           | Inr (d2, lg2) \<Rightarrow> Inr (d2, lg1 @ lg2)))"

text \<open>The \<open>file_image\<close> part of a form, from a local file.\<close>

definition file_image :: "adapter_env \<Rightarrow> string \<Rightarrow> adapter_error + form_field" where
  "file_image env file =
     (case buffer env file of
        Inl e \<Rightarrow> Inl e
      | Inr buf \<Rightarrow> (let (filename, contentType) = detectImageType buf (Some file)
                    in Inr (FFileImage buf filename contentType)))"

text \<open>The leading payload, when there is text: it takes the first remote or local image along.\<close>

definition guild_head :: "adapter_env \<Rightarrow> guild_msg draft \<Rightarrow> adapter_error + guild_msg draft" where
  "guild_head env d =
     (if d_content d = [] then Inr d
      else case d_imageUrls d of
        url # urls \<Rightarrow>
          Inr (d\<lparr>d_imageUrls := urls,
                 d_list := GObj (GuildMsgOptions env ''text'' (concat (d_content d)) (Some url)) # d_list d\<rparr>)
      | [] \<Rightarrow>
          (case d_imageFiles d of
             file # files \<Rightarrow>
               (case file_image env file of
                  Inl e \<Rightarrow> Inl e
                | Inr part \<Rightarrow>
                    Inr (d\<lparr>d_imageFiles := files,
                           d_list := GForm [FContent (concat (d_content d)), part] # d_list d\<rparr>))
           | [] \<Rightarrow>
               Inr (d\<lparr>d_list := GObj (GuildMsgOptions env ''text'' (concat (d_content d)) None) # d_list d\<rparr>)))"

fun file_forms :: "adapter_env \<Rightarrow> string list \<Rightarrow> guild_msg list \<Rightarrow> adapter_error + guild_msg list" where
  "file_forms env [] acc = Inr acc"
| "file_forms env (file # files) acc =
     (case file_image env file of
        Inl e \<Rightarrow> Inl e
      | Inr part \<Rightarrow> file_forms env files (acc @ [GForm [part]]))"

text \<open>The passive-reply closure of the guild surface: an id and no sequence number.\<close>

definition pasmsg_guild :: "pasmsg_draft \<Rightarrow> guild_msg \<Rightarrow> guild_msg" where
  "pasmsg_guild pm =
     (if pm_msg_id pm = [] then (\<lambda>item. item)
      else if pm_type pm = PMsg
      then (\<lambda>item. case item of
                GForm parts \<Rightarrow> GForm (parts @ [FMsgId (pm_msg_id pm)])
              | GObj obj \<Rightarrow> GObj (obj\<lparr>g_msg_id := Some (pm_msg_id pm)\<rparr>))
      else (\<lambda>item. case item of
                GForm parts \<Rightarrow> GForm (parts @ [FEventId (pm_msg_id pm)])
              | GObj obj \<Rightarrow> GObj (obj\<lparr>g_event_id := Some (pm_msg_id pm)\<rparr>)))"

definition send_guild :: "adapter_env \<Rightarrow> contact \<Rightarrow> guild_msg \<Rightarrow> adapter_error + string" where
  "send_guild env c =
     (if c_scene c = Guild then sendChannelMsg env (c_subPeer c) else sendDmsMsg env (c_peer c))"

definition assemble_guild :: "adapter_env \<Rightarrow> guild_msg draft \<Rightarrow> adapter_error + guild_msg draft" where
  "assemble_guild env d =
     (case guild_head env d of
        Inl e \<Rightarrow> Inl e
      | Inr d1 \<Rightarrow>
          let l2 = d_list d1 @ map (\<lambda>url. GObj (GuildMsgOptions env ''image'' url None)) (d_imageUrls d1)
          in case file_forms env (d_imageFiles d1) l2 of
               Inl e \<Rightarrow> Inl e
             | Inr l3 \<Rightarrow> Inr (markdownToButton_guild env (d1\<lparr>d_list := l3\<rparr>)))"

definition compose_guild ::
  "adapter_env \<Rightarrow> contact \<Rightarrow> element list \<Rightarrow> adapter_error + (guild_msg draft \<times> log_entry list)" where
  "compose_guild env c elements =
     (case guild_loop env c elements (initList_guild env) of
        Inl e \<Rightarrow> Inl e
      | Inr (d, lg) \<Rightarrow>
          (case assemble_guild env d of
             Inl e \<Rightarrow> Inl e
           | Inr d' \<Rightarrow> Inr (d', lg)))"

definition deliver_guild ::
  "adapter_env \<Rightarrow> contact \<Rightarrow> guild_msg draft \<Rightarrow> adapter_error + (guild_msg \<times> string) list" where
  "deliver_guild env c d =
     (let items = (if d_list d = []
                   then [GObj (GuildMsgOptions env ''text'' unsupported_text None)]
                   else d_list d)
      in send_all (send_guild env c) (pasmsg_guild (d_pasmsg d)) items)"

definition sendGuildMsg ::
  "adapter_env \<Rightarrow> contact \<Rightarrow> element list \<Rightarrow> adapter_error + ((guild_msg \<times> string) list \<times> log_entry list)" where
  "sendGuildMsg env c elements =
     (case compose_guild env c elements of
        Inl e \<Rightarrow> Inl e
      | Inr (d, lg) \<Rightarrow>
          (case deliver_guild env c d of
             Inl e \<Rightarrow> Inl e
           | Inr sent \<Rightarrow> Inr (sent, lg)))"

text \<open>
  \<open>sendMsg\<close>: the surface is chosen by the scene. (The scene type has four members; the
  \<open>throw\<close> after the two \<open>if\<close>s is for a value outside it.)
\<close>

definition sendMsg ::
  "adapter_env \<Rightarrow> contact \<Rightarrow> element list \<Rightarrow>
     adapter_error + ((guild_msg \<times> string) list + (qq_msg \<times> string) list) \<times> log_entry list" where
  "sendMsg env c elements =
     (if c_scene c = Direct \<or> c_scene c = Guild
      then (case sendGuildMsg env c elements of
              Inl e \<Rightarrow> Inl e | Inr (sent, lg) \<Rightarrow> Inr (Inl sent, lg))
      else (case sendQQMsg env c elements of
              Inl e \<Rightarrow> Inl e | Inr (sent, lg) \<Rightarrow> Inr (Inr sent, lg)))"

subsection \<open>The template pipeline: private chat and group (\<open>AdapterQQBotMarkdown.sendQQMsg\<close>)\<close>

text \<open>
  The passive-reply closure of the template pipeline, with its counter \<open>msgSeqCounter\<close>
  passed in and returned. \<open>now\<close> is \<open>Date.now()\<close> when the closure was built.
\<close>

definition pasmsg_markdown ::
  "contact \<Rightarrow> pasmsg_draft \<Rightarrow> int \<Rightarrow> nat \<Rightarrow> qq_msg \<Rightarrow> qq_msg \<times> nat" where
  "pasmsg_markdown c pm now msgSeqCounter item =
     (if pm_is_wakeup pm \<and> c_scene c = Friend
      then (item\<lparr>is_wakeup := Some True\<rparr>, msgSeqCounter)
      else if pm_msg_id pm = []
      then (item\<lparr>msg_seq := Some (now mod 0xFFFFFFFF + int msgSeqCounter)\<rparr>, msgSeqCounter + 1)
      else
        let currentSeq = pm_msg_seq pm + int msgSeqCounter in
        if pm_type pm = PMsg
        then (item\<lparr>msg_seq := Some currentSeq, msg_id := Some (pm_msg_id pm)\<rparr>, msgSeqCounter + 1)
        else (item\<lparr>msg_seq := Some currentSeq, event_id := Some (pm_msg_id pm)\<rparr>, msgSeqCounter + 1))"

text \<open>
  Modelled from the spec: the use the template strategy of core/adapter/handler.ts, which
  is not among the sources, makes of the closure. Section 3 of the specification has the
  binding "applied to every outgoing payload derived from the same Draft"; \<open>bind_all\<close>
  is the closure applied once to each payload of a list, in order.
\<close>

fun bind_all :: "(nat \<Rightarrow> 'p \<Rightarrow> 'p \<times> nat) \<Rightarrow> nat \<Rightarrow> 'p list \<Rightarrow> 'p list" where
  "bind_all f n [] = []"
| "bind_all f n (item # items) = (let (item', n') = f n item in item' # bind_all f n' items)"

subsection \<open>Example inputs for the composer\<close>

definition ex_draft :: "'p draft" where
  "ex_draft = \<lparr>d_content = [], d_image = [], d_imageUrls = [], d_imageFiles = [],
     d_pasmsg = \<lparr>pm_type = PMsg, pm_msg_id = [], pm_msg_seq = 0, pm_is_wakeup = False\<rparr>,
     d_reply = None, d_keyboard = [], d_button = [], d_markdown = [], d_markdownTpl = [],
     d_list = []\<rparr>"

text \<open>
  An environment in which nothing fails: no URL is found in a text, an upload answers with
  the name of what was uploaded, \<open>markdownToButton\<close> leaves the draft as it is, every send
  answers \<open>ok\<close>.
\<close>

definition ex_env :: adapter_env where
  "ex_env = \<lparr>cfg_exclude = [],
     handleUrl = (\<lambda>text ex. []),
     replaceAll = (\<lambda>text url rep. Inr text),
     qrs = (\<lambda>urls. Inr urls),
     mergeImage = (\<lambda>imgs n. Inl (Thrown ''mergeImage'')),
     fileToUrl = (\<lambda>ty file name. Inr (''http://host/'' @ name)),
     uploadMedia = (\<lambda>target peer ty url. Inr (''info:'' @ url)),
     base64 = (\<lambda>file. Inr file),
     buffer = (\<lambda>file. Inr []),
     QQdMsgOptions = (\<lambda>kind content. \<lparr>q_kind = kind, q_content = content, msg_seq = None,
        msg_id = None, event_id = None, is_wakeup = None\<rparr>),
     GuildMsgOptions = (\<lambda>kind content img. \<lparr>g_kind = kind, g_content = content, g_image = img,
        g_msg_id = None, g_event_id = None\<rparr>),
     initList_qq = ex_draft,
     initList_guild = ex_draft,
     markdownToButton_qq = (\<lambda>d. d),
     markdownToButton_guild = (\<lambda>d. d),
     sendFriendMsg = (\<lambda>peer item. Inr ''ok''),
     sendGroupMsg = (\<lambda>peer item. Inr ''ok''),
     sendChannelMsg = (\<lambda>peer item. Inr ''ok''),
     sendDmsMsg = (\<lambda>peer item. Inr ''ok'')\<rparr>"

definition ex_group :: contact where
  "ex_group = \<lparr>c_scene = Group, c_peer = ''g1'', c_subPeer = []\<rparr>"

definition ex_channel :: contact where
  "ex_channel = \<lparr>c_scene = Guild, c_peer = ''guild1'', c_subPeer = ''ch1''\<rparr>"

section \<open>Configuration round trip\<close>

lemma spread_spread: "spread d (spread d i) = spread d i"
  by (cases i; cases d) (simp_all add: spread_def)

lemma or_default_clean:
  assumes "d = Some dv" "dv \<noteq> []"
  shows "or_default (if or_default i d = d then None else or_default i d) d = or_default i d"
  using assms by (cases i) (auto simp: or_default_def)

lemma def_event_sel:
  "ev_type def_event = Some 0" "wsToken def_event = Some []"
  "\<exists>u. wsUrl def_event = Some u \<and> u \<noteq> []"
  by (simp_all add: def_event_def js_def)

lemma def_api_sel:
  "\<exists>u. prodApi getDefaultConfig = Some u \<and> u \<noteq> []"
  "\<exists>u. sandboxApi getDefaultConfig = Some u \<and> u \<noteq> []"
  "\<exists>u. tokenApi getDefaultConfig = Some u \<and> u \<noteq> []"
  by (simp_all add: getDefaultConfig_def js_def)

lemma format_event_sel:
  "ev_type (format_event e) = spread (ev_type def_event) (opt_field ev_type e)"
  "wsUrl (format_event e) = or_default (opt_field wsUrl e) (wsUrl def_event)"
  "wsToken (format_event e) = or_default (opt_field wsToken e) (wsToken def_event)"
  by (simp_all add: format_event_def)

lemma ev_type_format_Some: "\<exists>t. ev_type (format_event e) = Some t"
  by (cases "opt_field ev_type e") (simp_all add: format_event_sel def_event_sel spread_def)

lemma format_event_clean:
  "format_event (clean_event (format_event e)) = format_event e"
proof -
  obtain u where u: "wsUrl def_event = Some u" "u \<noteq> []"
    using def_event_sel(3) by blast
  obtain t where t: "ev_type (format_event e) = Some t"
    using ev_type_format_Some by blast
  define f where "f = format_event e"
  have fu: "wsUrl f = or_default (opt_field wsUrl e) (Some u)"
    and ft: "wsToken f = or_default (opt_field wsToken e) (Some [])"
    by (simp_all add: f_def format_event_sel u def_event_sel)
  have fty: "ev_type f = Some t"
    using t by (simp add: f_def)
  have fu_some: "\<exists>v. wsUrl f = Some v \<and> v \<noteq> []"
    unfolding fu using u(2) by (cases "opt_field wsUrl e") (auto simp: or_default_def)
  have ft_some: "\<exists>v. wsToken f = Some v"
    unfolding ft by (cases "opt_field wsToken e") (auto simp: or_default_def)
  have c1: "ev_type (format_event (clean_event f)) = ev_type f"
    using fty
    by (auto simp: format_event_sel clean_event_def Let_def opt_field_def spread_def
          def_event_sel event_keys_def)
  have c2: "wsUrl (format_event (clean_event f)) = wsUrl f"
    using fu_some
    by (auto simp: format_event_sel clean_event_def Let_def opt_field_def or_default_def u
          event_keys_def)
  have c3: "wsToken (format_event (clean_event f)) = wsToken f"
    using ft_some
    by (auto simp: format_event_sel clean_event_def Let_def opt_field_def or_default_def
          def_event_sel event_keys_def)
  have "format_event (clean_event f) = f"
    by (rule event_cfg.equality) (simp_all add: c1 c2 c3)
  thus ?thesis by (simp add: f_def)
qed

lemma format_markdown_idem:
  "format_markdown (Some (format_markdown m)) = format_markdown m"
  by (rule markdown_cfg.equality)
     (simp_all add: format_markdown_def opt_field_def spread_spread)

lemma format_item_sel:
  "appId (format_item x) = spread (appId getDefaultConfig) (appId x)"
  "secret (format_item x) = spread (secret getDefaultConfig) (secret x)"
  "prodApi (format_item x) = or_default (prodApi x) (prodApi getDefaultConfig)"
  "sandboxApi (format_item x) = or_default (sandboxApi x) (sandboxApi getDefaultConfig)"
  "tokenApi (format_item x) = or_default (tokenApi x) (tokenApi getDefaultConfig)"
  "sandbox (format_item x) = spread (sandbox getDefaultConfig) (sandbox x)"
  "qqEnable (format_item x) = spread (qqEnable getDefaultConfig) (qqEnable x)"
  "guildEnable (format_item x) = spread (guildEnable getDefaultConfig) (guildEnable x)"
  "guildMode (format_item x) = spread (guildMode getDefaultConfig) (guildMode x)"
  "exclude (format_item x) = spread (exclude getDefaultConfig) (exclude x)"
  "regex (format_item x) = spread (regex getDefaultConfig) (regex x)"
  "markdown (format_item x) = Some (format_markdown (markdown x))"
  "event (format_item x) = Some (format_event (event x))"
  "qqbot_cfg.more (format_item x) = ()"
  by (simp_all add: format_item_def Let_def)

lemma clean_item_sel:
  "appId (clean_item c) = appId c"
  "secret (clean_item c) = secret c"
  "prodApi (clean_item c) = (if prodApi c = prodApi getDefaultConfig then None else prodApi c)"
  "sandboxApi (clean_item c) =
     (if sandboxApi c = sandboxApi getDefaultConfig then None else sandboxApi c)"
  "tokenApi (clean_item c) = (if tokenApi c = tokenApi getDefaultConfig then None else tokenApi c)"
  "sandbox (clean_item c) = sandbox c"
  "qqEnable (clean_item c) = qqEnable c"
  "guildEnable (clean_item c) = guildEnable c"
  "guildMode (clean_item c) = guildMode c"
  "exclude (clean_item c) = exclude c"
  "regex (clean_item c) = regex c"
  "markdown (clean_item c) = markdown c"
  "event (clean_item c) = (case event c of Some e \<Rightarrow> clean_event e | None \<Rightarrow> None)"
  by (simp_all add: clean_item_def Let_def split: option.splits)

lemma format_clean_format: "format_item (clean_item (format_item x)) = format_item x"
proof (rule qqbot_cfg.equality)
  obtain p where p: "prodApi getDefaultConfig = Some p" "p \<noteq> []"
    using def_api_sel(1) by blast
  obtain s where s: "sandboxApi getDefaultConfig = Some s" "s \<noteq> []"
    using def_api_sel(2) by blast
  obtain t where t: "tokenApi getDefaultConfig = Some t" "t \<noteq> []"
    using def_api_sel(3) by blast
  show "prodApi (format_item (clean_item (format_item x))) = prodApi (format_item x)"
    by (simp only: format_item_sel clean_item_sel or_default_clean [OF p])
  show "sandboxApi (format_item (clean_item (format_item x))) = sandboxApi (format_item x)"
    by (simp only: format_item_sel clean_item_sel or_default_clean [OF s])
  show "tokenApi (format_item (clean_item (format_item x))) = tokenApi (format_item x)"
    by (simp only: format_item_sel clean_item_sel or_default_clean [OF t])
  show "event (format_item (clean_item (format_item x))) = event (format_item x)"
    by (simp add: format_item_sel clean_item_sel format_event_clean)
  show "markdown (format_item (clean_item (format_item x))) = markdown (format_item x)"
    by (simp add: format_item_sel clean_item_sel format_markdown_idem)
qed (simp_all only: format_item_sel clean_item_sel spread_spread)

lemma cfg_id_clean: "cfg_id (clean_item c) = cfg_id c"
  by (simp add: cfg_id_def clean_item_sel)

subsection \<open>The de-duplication loop\<close>

lemma map_set_fresh: "k \<notin> fst ` set m \<Longrightarrow> map_set m k v = m @ [(k, v)]"
  by (induction m) auto

lemma map_set_keys:
  "map fst (map_set m k v) = (if k \<in> fst ` set m then map fst m else map fst m @ [k])"
proof (induction m)
  case Nil
  show ?case by simp
next
  case (Cons p m)
  obtain k' v' where p: "p = (k', v')" by (cases p)
  show ?case
  proof (cases "k' = k")
    case True
    then show ?thesis by (simp add: p)
  next
    case False
    with Cons.IH show ?thesis by (simp add: p)
  qed
qed

lemma map_set_values: "set (map_set m k v) \<subseteq> insert (k, v) (set m)"
proof (induction m)
  case Nil
  show ?case by simp
next
  case (Cons p m)
  obtain k' v' where p: "p = (k', v')" by (cases p)
  from Cons.IH show ?case by (cases "k' = k") (auto simp: p)
qed

lemma keyed_map_set: "keyed m \<Longrightarrow> k = cfg_id c \<Longrightarrow> k \<noteq> [] \<Longrightarrow> keyed (map_set m k c)"
  unfolding keyed_def using map_set_values [of m k c]
  by (auto simp: map_set_keys)

lemma keyed_uniq_loop: "keyed m \<Longrightarrow> keyed (uniq_loop cs m)"
  by (induction cs arbitrary: m) (auto simp: Let_def keyed_map_set)

lemma uniq_loop_values: "snd ` set (uniq_loop cs m) \<subseteq> set cs \<union> snd ` set m"
proof (induction cs arbitrary: m)
  case Nil
  show ?case by simp
next
  case (Cons c cs)
  have "snd ` set (map_set m (cfg_id c) c) \<subseteq> insert c (snd ` set m)"
    using map_set_values [of m "cfg_id c" c] by force
  with Cons.IH [of "map_set m (cfg_id c) c"]
  have "snd ` set (uniq_loop cs (map_set m (cfg_id c) c)) \<subseteq> set (c # cs) \<union> snd ` set m"
    by auto
  moreover from Cons.IH [of m]
  have "snd ` set (uniq_loop cs m) \<subseteq> set (c # cs) \<union> snd ` set m"
    by auto
  ultimately show ?case
    by (simp add: Let_def)
qed

lemma uniq_loop_keyed_append:
  "keyed (m @ m') \<Longrightarrow> uniq_loop (map snd m') m = m @ m'"
proof (induction m' arbitrary: m)
  case Nil
  show ?case by simp
next
  case (Cons p m')
  obtain k c where p: "p = (k, c)" by (cases p)
  from Cons.prems have k: "k = cfg_id c" "k \<noteq> []" "k \<notin> fst ` set m"
    by (auto simp: keyed_def p)
  from Cons.prems have "keyed ((m @ [(k, c)]) @ m')" by (simp add: p)
  from Cons.IH [OF this] show ?case
    using k by (simp add: p Let_def map_set_fresh)
qed

lemma uniq_loop_fixpoint:
  "uniq_loop (map snd (uniq_loop cs [])) [] = uniq_loop cs []"
proof -
  have "keyed (uniq_loop cs [])"
    by (rule keyed_uniq_loop) (simp add: keyed_def)
  then have "keyed ([] @ uniq_loop cs [])" by simp
  from uniq_loop_keyed_append [OF this] show ?thesis by simp
qed

lemma formatConfig_formatted: "c \<in> set (formatConfig user) \<Longrightarrow> \<exists>x. c = format_item x"
  using uniq_loop_values [of "map format_item user" "[]"]
  by (auto simp: formatConfig_def)

lemma format_clean_formatConfig:
  "map format_item (cleanConfigForWrite (formatConfig user)) = formatConfig user"
proof -
  have "map (\<lambda>c. format_item (clean_item c)) (formatConfig user) = map (\<lambda>c. c) (formatConfig user)"
  proof (rule map_cong [OF refl])
    fix c assume "c \<in> set (formatConfig user)"
    then obtain x where "c = format_item x" using formatConfig_formatted by blast
    then show "format_item (clean_item c) = c" by (simp add: format_clean_format)
  qed
  then show ?thesis by (simp add: cleanConfigForWrite_def comp_def)
qed

text \<open>
  C8. Writing a configuration list through the save path (format, then strip the
  default-valued keys) and loading the result again gives the list that formatting the
  original gives: every stripped key comes back with its default.
\<close>

theorem config_round_trip:
  "formatConfig (cleanConfigForWrite (formatConfig c)) = formatConfig c"
proof -
  have "formatConfig (cleanConfigForWrite (formatConfig c))
      = map snd (uniq_loop (map format_item (cleanConfigForWrite (formatConfig c))) [])"
    by (simp add: formatConfig_def)
  also have "\<dots> = map snd (uniq_loop (formatConfig c) [])"
    by (simp only: format_clean_formatConfig)
  also have "\<dots> = map snd (uniq_loop (map format_item c) [])"
    by (simp add: formatConfig_def uniq_loop_fixpoint)
  finally show ?thesis by (simp add: formatConfig_def)
qed


section \<open>Session manager: what each callback leaves alone\<close>




lemma close_attemptSeq: "attemptSeq (fst (close st appid sock cid ic)) = attemptSeq st"
  by (simp add: close_def Let_def split: option.splits)

lemma close_reconnectAttempts:
  "reconnectAttempts (fst (close st appid sock cid ic)) = reconnectAttempts st"
  by (simp add: close_def Let_def split: option.splits)

lemma close_BotMap: "BotMap (fst (close st appid sock cid ic)) = BotMap st"
  by (simp add: close_def Let_def split: option.splits)

lemma close_cache:
  "cache (fst (close st appid sock cid ic)) =
     (case cache st appid of
        Some ws \<Rightarrow> if connectionId ws = cid then (cache st)(appid := None) else cache st
      | None \<Rightarrow> cache st)"
  by (simp add: close_def Let_def split: option.splits)

lemma begin_attemptSeq: "attemptSeq (fst (attemptReconnect_begin st appid n)) = attemptSeq st"
  by (simp add: attemptReconnect_begin_def)

lemma begin_cache: "cache (fst (attemptReconnect_begin st appid n)) = cache st"
  by (simp add: attemptReconnect_begin_def)

lemma setHeartbeatInterval_attemptSeq:
  "attemptSeq (fst (setHeartbeatInterval st ses i)) = attemptSeq st"
  by (simp add: setHeartbeatInterval_def Let_def split: option.splits)

lemma handle_attemptSeq: "attemptSeq (fst (handleWebSocketMessage st ses data)) = attemptSeq st"
  by (cases "f_op data")
     (simp_all add: handleWebSocketMessage_def Let_def split_beta setHeartbeatInterval_attemptSeq
        begin_attemptSeq)

lemma on_message_attemptSeq: "attemptSeq (fst (on_message st ses data)) = attemptSeq st"
  by (simp add: on_message_def Let_def split_beta handle_attemptSeq split: option.splits)

lemma on_close_attemptSeq: "attemptSeq (fst (on_close st ses code)) = attemptSeq st"
  by (simp add: on_close_def Let_def split_beta begin_attemptSeq close_attemptSeq)

lemma on_error_attemptSeq: "attemptSeq (fst (on_error st ses)) = attemptSeq st"
  by (simp add: on_error_def Let_def split_beta close_attemptSeq)

lemma on_open_attemptSeq: "attemptSeq (fst (on_open st ses)) = attemptSeq st"
  by (simp add: on_open_def)

lemma ws_on_attemptSeq: "attemptSeq (fst (ws_on st ses e)) = attemptSeq st"
  by (cases e)
     (simp_all add: on_message_attemptSeq on_close_attemptSeq on_error_attemptSeq
        on_open_attemptSeq split_beta)

lemma create_attemptSeq:
  "attemptSeq (fst (createWebSocketConnection st cfg)) =
     (if cfg_appId cfg = ''default'' \<or> cfg_eventType cfg \<noteq> 2 then attemptSeq st
      else (attemptSeq st)(cfg_appId cfg \<mapsto> seq_of st (cfg_appId cfg) + 1))"
  by (simp add: createWebSocketConnection_def Let_def split_beta close_attemptSeq
        split: option.splits)

lemma stop_attemptSeq:
  "attemptSeq (fst (stopWebSocketConnection st appid)) =
     (attemptSeq st)(appid \<mapsto> seq_of st appid + 1)"
  by (simp add: stopWebSocketConnection_def Let_def split_beta close_attemptSeq
        split: option.splits)

lemma ws_step_mono: "seq_of st x \<le> seq_of (ws_step st op) x"
  by (cases op)
     (simp_all add: seq_of_def create_attemptSeq stop_attemptSeq ws_on_attemptSeq
        begin_attemptSeq split: option.splits)

lemma ws_steps_mono: "seq_of st x \<le> seq_of (foldl ws_step st ops) x"
proof (induction ops arbitrary: st)
  case Nil
  show ?case by simp
next
  case (Cons op ops)
  have "seq_of st x \<le> seq_of (ws_step st op) x" by (rule ws_step_mono)
  also have "\<dots> \<le> seq_of (foldl ws_step (ws_step st op) ops) x" by (rule Cons.IH)
  finally show ?case by simp
qed

lemma older_is_stale:
  "attempt a < seq_of st (cfg_appId (config a)) \<Longrightarrow> isStale st a"
  by (auto simp: isStale_def seq_of_def)

lemma stale_callbacks:
  assumes "isStale st ses"
  shows "on_message st ses data = (st, ses, [])"
    and "on_close st ses code = (st, ses, [])"
    and "on_error st ses = (st, ses, [])"
    and "on_open st ses = (st, ses, [SocketRemoveAllListeners (ses_socket ses), SocketClose (ses_socket ses)])"
  using assms by (simp_all add: on_message_def on_close_def on_error_def on_open_def)

lemma create_attempt_is_counter:
  assumes "createWebSocketConnection st cfg = (st1, Awaiting a, fx)"
  shows "config a = cfg" and "attempt a = seq_of st1 (cfg_appId cfg)"
proof -
  from assms have ok: "cfg_appId cfg \<noteq> ''default''" "cfg_eventType cfg = 2"
    by (auto simp: createWebSocketConnection_def split: if_splits)
  from assms ok show "config a = cfg"
    by (auto simp: createWebSocketConnection_def Let_def split_beta)
  have "attemptSeq st1 = attemptSeq (fst (createWebSocketConnection st cfg))"
    by (simp add: assms)
  with ok have s: "seq_of st1 (cfg_appId cfg) = seq_of st (cfg_appId cfg) + 1"
    by (simp add: create_attemptSeq seq_of_def)
  from assms ok have "attempt a = seq_of st (cfg_appId cfg) + 1"
    by (auto simp: createWebSocketConnection_def Let_def split_beta seq_of_def)
  with s show "attempt a = seq_of st1 (cfg_appId cfg)" by simp
qed

lemma stop_bumps: "seq_of (fst (stopWebSocketConnection st x)) x = seq_of st x + 1"
  by (simp add: stop_attemptSeq seq_of_def)

text \<open>
  C2. Take any attempt that \<open>createWebSocketConnection\<close> opened, let anything happen to
  the shared maps (\<open>ops1\<close>), call \<open>stopWebSocketConnection\<close> for its identity, and let
  anything happen again (\<open>ops2\<close>). From then on every socket callback of a session of
  that attempt returns at its staleness check: a frame, a close and an error change
  neither the shared maps nor the session and have no effect at all (no event is emitted),
  and an open event only closes the stale socket itself. A gateway answer that comes this
  late makes no socket: it only resolves the attempt's promise false, which a rejected
  gateway request does not even do.
\<close>

theorem stop_silences_earlier_sessions:
  assumes "createWebSocketConnection st0 cfg = (st1, Awaiting a, fx)"
    and "config ses = config a" and "attempt ses = attempt a"
    and "st2 = foldl ws_step st1 ops1"
    and "st3 = fst (stopWebSocketConnection st2 (cfg_appId cfg))"
    and "st4 = foldl ws_step st3 ops2"
  shows "on_message st4 ses data = (st4, ses, [])
       \<and> on_close st4 ses code = (st4, ses, [])
       \<and> on_error st4 ses = (st4, ses, [])
       \<and> on_open st4 ses =
           (st4, ses, [SocketRemoveAllListeners (ses_socket ses), SocketClose (ses_socket ses)])
       \<and> on_gateway st4 a url sock cid = (Inl (fst (resolveOnce a False)), snd (resolveOnce a False))
       \<and> on_catch st4 a = (a, [])"
proof -
  let ?x = "cfg_appId cfg"
  have c: "config ses = cfg" and n: "attempt ses = seq_of st1 ?x"
    using create_attempt_is_counter [OF assms(1)] assms(2,3) by simp_all
  have "seq_of st1 ?x \<le> seq_of st2 ?x"
    unfolding assms(4) by (rule ws_steps_mono)
  also have "seq_of st2 ?x < seq_of st3 ?x"
    unfolding assms(5) by (simp add: stop_bumps)
  also have "seq_of st3 ?x \<le> seq_of st4 ?x"
    unfolding assms(6) by (rule ws_steps_mono)
  finally have "attempt ses < seq_of st4 (cfg_appId (config ses))"
    by (simp add: c n)
  then have stale: "isStale st4 ses" by (rule older_is_stale)
  with assms(2,3) have "isStale st4 a" by (simp add: isStale_def)
  then have "on_gateway st4 a url sock cid = (Inl (fst (resolveOnce a False)), snd (resolveOnce a False))"
    and "on_catch st4 a = (a, [])"
    by (simp_all add: on_gateway_def on_catch_def split_beta)
  with stale show ?thesis by (simp add: stale_callbacks)
qed

theorem stop_silences_earlier_sessions_witness:
  "createWebSocketConnection ex_st0 ex_cfg = (ex_st1, Awaiting ex_attempt,
      [SetTimeout 10000, GetGateway ''https://api.sgroup.qq.com''])
   \<and> config ex_session = config ex_attempt \<and> attempt ex_session = attempt ex_attempt
   \<and> on_message
        (foldl ws_step (fst (stopWebSocketConnection
            (foldl ws_step ex_st1 [OpSocket ex_session EvOpen]) (cfg_appId ex_cfg))) [OpCreate ex_cfg])
        ex_session (ex_frame Dispatch (Some ''READY''))
      = (foldl ws_step (fst (stopWebSocketConnection
            (foldl ws_step ex_st1 [OpSocket ex_session EvOpen]) (cfg_appId ex_cfg))) [OpCreate ex_cfg],
         ex_session, [])"
proof -
  have h1: "createWebSocketConnection ex_st0 ex_cfg = (ex_st1, Awaiting ex_attempt,
      [SetTimeout 10000, GetGateway ''https://api.sgroup.qq.com''])"
    by (simp add: createWebSocketConnection_def ex_st0_def ex_st1_def ex_cfg_def ex_attempt_def
          seq_of_def Let_def)
  have h2: "config ex_session = config ex_attempt" "attempt ex_session = attempt ex_attempt"
    by (simp_all add: ex_session_def ex_attempt_def)
  from stop_silences_earlier_sessions [OF h1 h2 refl refl refl] h1 h2
  show ?thesis by blast
qed

section \<open>The guards of the open operation\<close>

text \<open>
  C10. With the identity \<open>default\<close>, or with an event-delivery mode other than 2
  (WebSocket), \<open>createWebSocketConnection\<close> returns false at once: the shared maps are
  the ones it was given (no attempt number drawn, the cache not touched) and it has no
  effect (no gateway request, no timer). The two guards are the same lines in
  connection/webSocket.ts and in unnamed/part_000.
\<close>

theorem create_guards_return_false:
  "cfg_appId cfg = ''default'' \<or> cfg_eventType cfg \<noteq> 2 \<Longrightarrow>
     createWebSocketConnection st cfg = (st, Returned False, [])"
  by (auto simp: createWebSocketConnection_def)

theorem create_guards_return_false_witness:
  "(cfg_appId (ex_cfg\<lparr>cfg_appId := ''default''\<rparr>) = ''default''
      \<or> cfg_eventType (ex_cfg\<lparr>cfg_appId := ''default''\<rparr>) \<noteq> 2)
   \<and> createWebSocketConnection ex_live (ex_cfg\<lparr>cfg_appId := ''default''\<rparr>)
       = (ex_live, Returned False, [])
   \<and> (cfg_appId (ex_cfg\<lparr>cfg_eventType := 1\<rparr>) = ''default''
      \<or> cfg_eventType (ex_cfg\<lparr>cfg_eventType := 1\<rparr>) \<noteq> 2)
   \<and> createWebSocketConnection ex_live (ex_cfg\<lparr>cfg_eventType := 1\<rparr>)
       = (ex_live, Returned False, [])"
proof -
  have h1: "cfg_appId (ex_cfg\<lparr>cfg_appId := ''default''\<rparr>) = ''default''
      \<or> cfg_eventType (ex_cfg\<lparr>cfg_appId := ''default''\<rparr>) \<noteq> 2"
    by simp
  have h2: "cfg_appId (ex_cfg\<lparr>cfg_eventType := 1\<rparr>) = ''default''
      \<or> cfg_eventType (ex_cfg\<lparr>cfg_eventType := 1\<rparr>) \<noteq> 2"
    by simp
  from create_guards_return_false [OF h1, of ex_live]
       create_guards_return_false [OF h2, of ex_live] h1 h2
  show ?thesis by blast
qed

section \<open>The capability bitmask\<close>

lemma buildIntents_value:
  "buildIntents cfg = (if cfg_guildMode cfg = 1 then 33559043 else 1107300355)"
  by (simp add: buildIntents_def Let_def)

text \<open>
  The bitmask \<open>buildIntents\<close> computes: the four base bits and exactly one of the two
  guild-message bits, bit 9 in private domain (\<open>guildMode = 1\<close>), bit 30 otherwise.
\<close>

lemma buildIntents_bits:
  "bit (buildIntents cfg) n \<longleftrightarrow>
     n \<in> {0, 1, 12, 25} \<or> (if cfg_guildMode cfg = 1 then n = 9 else n = 30)"
proof -
  have one: "bit (push_bit m (1 :: 32 word)) n \<longleftrightarrow> n = m \<and> m < 32" for m n
    by (auto simp: bit_simps)
  have "bit (buildIntents cfg) n \<longleftrightarrow>
      n = 0 \<or> n = 1 \<or> n = 12 \<or> n = 25 \<or> (if cfg_guildMode cfg = 1 then n = 9 else n = 30)"
    unfolding buildIntents_def Let_def
    by (simp only: bit_or_iff one if_distrib [of "\<lambda>w. bit w n"] bit_0_eq) auto
  then show ?thesis by auto
qed

lemma hello_identify:
  "f_op data = Hello \<Longrightarrow>
     SocketSend (ses_socket ses)
        (IdentifyFrame (identify_token (BotMap st (cfg_appId (config ses)))) (buildIntents (config ses)))
       \<in> set (snd (snd (handleWebSocketMessage st ses data)))"
  by (simp add: handleWebSocketMessage_def Let_def split_beta)

text \<open>
  C7, at the Hello frame \<open>ex_frame Hello None\<close> received by the live session of identity
  102 in unnamed/part_000: the Identify frame it sends carries 33558531, which is the four
  base bits alone. Neither guild-message bit is in it, whatever \<open>guildMode\<close> says, while
  \<open>buildIntents\<close> of connection/webSocket.ts adds bit 30 for this configuration.
\<close>

theorem part000_identify_lacks_guild_bit:
  "snd (snd (handleWebSocketMessage_part000 ex_live ex_session (ex_frame Hello None)))
     = [Logger LDebug, SetInterval (HeartbeatTimer 7 41250),
        SocketSend 7 (IdentifyFrame ''QQBot tok'' 33558531), Logger LDebug]
   \<and> (33558531 :: 32 word) = push_bit 0 1 OR push_bit 1 1 OR push_bit 12 1 OR push_bit 25 1
   \<and> \<not> bit (33558531 :: 32 word) 9 \<and> \<not> bit (33558531 :: 32 word) 30
   \<and> buildIntents (config ex_session) = 33558531 OR push_bit 30 1"
proof -
  have a: "snd (snd (handleWebSocketMessage_part000 ex_live ex_session (ex_frame Hello None)))
     = [Logger LDebug, SetInterval (HeartbeatTimer 7 41250),
        SocketSend 7 (IdentifyFrame ''QQBot tok'' 33558531), Logger LDebug]"
    by (simp add: handleWebSocketMessage_part000_def setHeartbeatInterval_def ex_live_def
          ex_st1_def ex_st0_def ex_session_def ex_cfg_def ex_frame_def identify_token_def Let_def)
  have b: "(33558531 :: 32 word) = push_bit 0 1 OR push_bit 1 1 OR push_bit 12 1 OR push_bit 25 1"
    by simp
  have c: "\<not> bit (33558531 :: 32 word) 9" "\<not> bit (33558531 :: 32 word) 30"
    unfolding b by (simp_all add: bit_simps)
  have d: "buildIntents (config ex_session) = 33558531 OR push_bit 30 1"
    by (simp add: buildIntents_value ex_session_def ex_cfg_def)
  from a b c d show ?thesis by blast
qed

section \<open>Ownership of the cache entry\<close>

lemma close_not_owner:
  assumes "cache st appid = Some ws" and "connectionId ws \<noteq> cid"
  shows "close st appid sock cid ic =
     (st, [SocketRemoveAllListeners sock, SocketClose sock, Logger LDebug])"
  using assms by (simp add: close_def Let_def)

lemma close_owner:
  assumes "cache st appid = Some ws" and "connectionId ws = cid"
  shows "cache (fst (close st appid sock cid ic)) appid = None"
    and "heartbeatTimer ws = Some tm \<Longrightarrow> ClearInterval tm \<in> set (snd (close st appid sock cid ic))"
  using assms by (simp_all add: close_def Let_def)

lemma resolveOnce_no_cancel: "ClearInterval tm \<notin> set (snd (resolveOnce a b))"
  by (simp add: resolveOnce_def)

lemma begin_no_cancel: "ClearInterval tm \<notin> set (snd (attemptReconnect_begin st appid n))"
  by (simp add: attemptReconnect_begin_def)

lemma foreign_entry_untouched:
  assumes "cache st (cfg_appId (config ses)) = Some ws"
    and "connectionId ws \<noteq> ses_connectionId ses"
  shows "cache (fst (close st (cfg_appId (config ses)) (ses_socket ses) (ses_connectionId ses) ic))
           = cache st
       \<and> ClearInterval tm \<notin> set (snd (close st (cfg_appId (config ses)) (ses_socket ses)
                                          (ses_connectionId ses) ic))
       \<and> (e \<noteq> EvOpen \<or> isStale st ses \<longrightarrow>
            cache (fst (ws_on st ses e)) = cache st
          \<and> ClearInterval tm \<notin> set (snd (snd (ws_on st ses e))))"
proof -
  let ?x = "cfg_appId (config ses)"
  note cl = close_not_owner [OF assms, of "ses_socket ses"]
  have msg: "on_message st ses data = (st, ses, [])" for data
    using assms by (simp add: on_message_def)
  have clo: "cache (fst (on_close st ses code)) = cache st
      \<and> ClearInterval tm \<notin> set (snd (snd (on_close st ses code)))" for code
    using resolveOnce_no_cancel [of tm ses False]
    by (simp add: on_close_def Let_def split_beta cl begin_cache attemptReconnect_begin_def)
  have err: "cache (fst (on_error st ses)) = cache st
      \<and> ClearInterval tm \<notin> set (snd (snd (on_error st ses)))"
    using resolveOnce_no_cancel [of tm ses False]
    by (simp add: on_error_def Let_def split_beta cl)
  have tmo: "ClearInterval tm \<notin> set (snd (on_timeout ses))"
    using resolveOnce_no_cancel [of tm ses False]
    by (simp add: on_timeout_def split_beta)
  have opn: "isStale st ses \<Longrightarrow> cache (fst (on_open st ses)) = cache st
      \<and> ClearInterval tm \<notin> set (snd (snd (on_open st ses)))"
    by (simp add: on_open_def)
  have ev: "e \<noteq> EvOpen \<or> isStale st ses \<longrightarrow>
            cache (fst (ws_on st ses e)) = cache st
          \<and> ClearInterval tm \<notin> set (snd (snd (ws_on st ses e)))"
    using msg clo err tmo opn by (cases e) (simp_all add: split_beta)
  show ?thesis using ev by (simp add: cl)
qed

section \<open>The result of the open operation\<close>



text \<open>The socket and the connection id of the cached connection of an identity.\<close>

lemma setHeartbeatInterval_ids:
  "map_option (\<lambda>w. (socket w, connectionId w)) (cache (fst (setHeartbeatInterval st ses i)) x)
     = map_option (\<lambda>w. (socket w, connectionId w)) (cache st x)"
  by (simp add: setHeartbeatInterval_def Let_def split: option.splits)

lemma handle_ids:
  "map_option (\<lambda>w. (socket w, connectionId w)) (cache (fst (handleWebSocketMessage st ses data)) x)
     = map_option (\<lambda>w. (socket w, connectionId w)) (cache st x)"
  by (cases "f_op data")
     (simp_all add: handleWebSocketMessage_def Let_def split_beta setHeartbeatInterval_ids
        begin_cache)













lemma on_gateway_session:
  assumes "\<not> isStale st a" and "url = Some u" and "u \<noteq> []"
    and "BotMap st (cfg_appId (config a)) = Some tok" and "tok \<noteq> []"
  shows "on_gateway st a url sock cid =
     (Inr \<lparr>config = config a, attempt = attempt a, resolved = resolved a,
           ses_socket = sock, ses_connectionId = cid, heartbeatInterval = 0,
           lastSeq = 0, isReady = False\<rparr>, [NewWebSocket u sock])"
  using assms by (simp add: on_gateway_def)






section \<open>Reconnect and InvalidSession control frames\<close>

lemma on_message_live_unfold:
  assumes "live st ses" and "\<not> is_ready_frame data"
  shows "on_message st ses data = handleWebSocketMessage st ses data"
proof -
  from assms(1) obtain current where
    "\<not> isStale st ses" "cache st (cfg_appId (config ses)) = Some current"
    "socket current = ses_socket ses" "connectionId current = ses_connectionId ses"
    by (auto simp: live_def split: option.splits)
  with assms(2) show ?thesis
    by (auto simp: on_message_def is_ready_frame_def split_beta)
qed

lemma on_close_reconnect:
  "reconnectAttempts (fst (on_close st ses code)) =
     (if \<not> isStale st ses \<and> isReady ses \<and> code \<noteq> 1000 \<and> code \<noteq> 1001
      then (reconnectAttempts st)(cfg_appId (config ses) \<mapsto> 1)
      else reconnectAttempts st)"
  by (simp add: on_close_def Let_def split_beta attemptReconnect_begin_def maxAttempts_def
        close_reconnectAttempts)

lemma on_close_sleeps:
  "sleeps (snd (snd (on_close st ses code))) =
     (if \<not> isStale st ses \<and> isReady ses \<and> code \<noteq> 1000 \<and> code \<noteq> 1001 then [1000] else [])"
  by (simp add: on_close_def Let_def split_beta attemptReconnect_begin_def maxAttempts_def
        close_def resolveOnce_def backoff_def split: option.splits)

text \<open>
  C4 fails on the code, for the InvalidSession frame. Identity 102 connects: the gateway
  answers, the socket opens, Hello is answered with Identify and READY arrives, so the
  session is the live one, is ready and its promise is resolved with true. Then an
  InvalidSession frame arrives, and after it the close event of the socket, with code
  1005 (no status code), which is what the close event of a socket closed by
  \<open>socket.close()\<close> without a code carries. The frame handler closes the socket and starts
  nothing. The close listener then enters \<open>attemptReconnect\<close> with count 0: the counter of
  the identity is 1 and the back-off of 1000 ms is running, so an automatic reconnection
  is scheduled as a consequence of the InvalidSession frame.
\<close>

theorem invalid_session_close_starts_reconnect:
  "createWebSocketConnection ex_st0 ex_cfg
     = (ex_st1, Awaiting ex_attempt, [SetTimeout 10000, GetGateway ''https://api.sgroup.qq.com''])
   \<and> on_gateway ex_st1 ex_attempt (Some ex_url) 7 3 = (Inr ex_session, [NewWebSocket ex_url 7])
   \<and> (case ws_run ex_st1 ex_session
          [EvOpen, EvMessage (ex_frame Hello None), EvMessage (ex_frame Dispatch (Some ''READY''))] of
        (st, ses, fx) \<Rightarrow>
          live st ses \<and> isReady ses \<and> resolved ses = Some True
          \<and> reconnectAttempts st ''102'' = None
          \<and> ws_on st ses (EvMessage (ex_frame InvalidSession None))
               = (st, ses, [Logger LError, SocketClose 7])
          \<and> (case ws_on st ses (EvClose 1005) of
                (st', ses', fx') \<Rightarrow>
                  fx' = [SocketRemoveAllListeners 7, SocketClose 7, Logger LDebug,
                         ClearInterval (HeartbeatTimer 7 41250), Logger LDebug, Sleep 1000]
                  \<and> reconnectAttempts st' ''102'' = Some 1
                  \<and> cache st' ''102'' = None))"
proof -
  have h1: "createWebSocketConnection ex_st0 ex_cfg
     = (ex_st1, Awaiting ex_attempt, [SetTimeout 10000, GetGateway ''https://api.sgroup.qq.com''])"
    by (simp add: createWebSocketConnection_def ex_st0_def ex_st1_def ex_cfg_def ex_attempt_def
          seq_of_def Let_def)
  have h2: "on_gateway ex_st1 ex_attempt (Some ex_url) 7 3 = (Inr ex_session, [NewWebSocket ex_url 7])"
    by (simp add: on_gateway_def isStale_def ex_st0_def ex_st1_def ex_cfg_def ex_attempt_def
          ex_session_def ex_url_def)
  have h3: "case ws_run ex_st1 ex_session
          [EvOpen, EvMessage (ex_frame Hello None), EvMessage (ex_frame Dispatch (Some ''READY''))] of
        (st, ses, fx) \<Rightarrow>
          live st ses \<and> isReady ses \<and> resolved ses = Some True
          \<and> reconnectAttempts st ''102'' = None
          \<and> ws_on st ses (EvMessage (ex_frame InvalidSession None))
               = (st, ses, [Logger LError, SocketClose 7])
          \<and> (case ws_on st ses (EvClose 1005) of
                (st', ses', fx') \<Rightarrow>
                  fx' = [SocketRemoveAllListeners 7, SocketClose 7, Logger LDebug,
                         ClearInterval (HeartbeatTimer 7 41250), Logger LDebug, Sleep 1000]
                  \<and> reconnectAttempts st' ''102'' = Some 1
                  \<and> cache st' ''102'' = None)"
    by (simp add: live_def on_open_def on_message_def on_close_def handleWebSocketMessage_def
          setHeartbeatInterval_def close_def resolveOnce_def attemptReconnect_begin_def
          maxAttempts_def backoff_def isStale_def identify_token_def ex_st1_def ex_st0_def
          ex_session_def ex_cfg_def ex_frame_def Let_def)
  from h1 h2 h3 show ?thesis by (simp only: simp_thms)
qed

text \<open>
  What the two frame handlers do on the live session. The handler of a Reconnect frame
  closes the socket and, in the same turn, enters \<open>attemptReconnect\<close> with count 0: the
  counter of the identity becomes 1 and the first back-off of 1000 ms starts. The handler
  of an InvalidSession frame closes the socket and does nothing else. The close listener
  enters \<open>attemptReconnect\<close> exactly when the attempt is current, the session had been
  ready and the close code is neither 1000 nor 1001.
\<close>

lemma control_frames_close_socket:
  assumes "live st ses"
  shows "(f_op data = Reconnect \<longrightarrow>
            snd (snd (on_message st ses data))
              = [Logger LWarn, SocketClose (ses_socket ses), Logger LDebug, Sleep 1000]
          \<and> fst (on_message st ses data)
              = st\<lparr>reconnectAttempts := (reconnectAttempts st)(cfg_appId (config ses) \<mapsto> 1)\<rparr>)
       \<and> (f_op data = InvalidSession \<longrightarrow>
            snd (snd (on_message st ses data)) = [Logger LError, SocketClose (ses_socket ses)]
          \<and> fst (on_message st ses data) = st)
       \<and> reconnectAttempts (fst (on_close st ses code)) =
            (if isReady ses \<and> code \<noteq> 1000 \<and> code \<noteq> 1001
             then (reconnectAttempts st)(cfg_appId (config ses) \<mapsto> 1)
             else reconnectAttempts st)
       \<and> sleeps (snd (snd (on_close st ses code))) =
            (if isReady ses \<and> code \<noteq> 1000 \<and> code \<noteq> 1001 then [1000] else [])"
proof -
  from assms have fresh: "\<not> isStale st ses" by (simp add: live_def)
  have r: "f_op data = Reconnect \<longrightarrow>
            snd (snd (on_message st ses data))
              = [Logger LWarn, SocketClose (ses_socket ses), Logger LDebug, Sleep 1000]
          \<and> fst (on_message st ses data)
              = st\<lparr>reconnectAttempts := (reconnectAttempts st)(cfg_appId (config ses) \<mapsto> 1)\<rparr>"
  proof
    assume op: "f_op data = Reconnect"
    then have "\<not> is_ready_frame data" by (simp add: is_ready_frame_def)
    from on_message_live_unfold [OF assms this] op
    show "snd (snd (on_message st ses data))
              = [Logger LWarn, SocketClose (ses_socket ses), Logger LDebug, Sleep 1000]
          \<and> fst (on_message st ses data)
              = st\<lparr>reconnectAttempts := (reconnectAttempts st)(cfg_appId (config ses) \<mapsto> 1)\<rparr>"
      by (simp add: handleWebSocketMessage_def Let_def attemptReconnect_begin_def maxAttempts_def
            backoff_def)
  qed
  have i: "f_op data = InvalidSession \<longrightarrow>
            snd (snd (on_message st ses data)) = [Logger LError, SocketClose (ses_socket ses)]
          \<and> fst (on_message st ses data) = st"
  proof
    assume op: "f_op data = InvalidSession"
    then have "\<not> is_ready_frame data" by (simp add: is_ready_frame_def)
    from on_message_live_unfold [OF assms this] op
    show "snd (snd (on_message st ses data)) = [Logger LError, SocketClose (ses_socket ses)]
          \<and> fst (on_message st ses data) = st"
      by (simp add: handleWebSocketMessage_def Let_def)
  qed
  from r i fresh show ?thesis
    by (simp only: on_close_reconnect on_close_sleeps) simp
qed

subsection \<open>The cached connection belongs to the current attempt\<close>

lemma close_own_entry:
  "cache st appid = Some ws \<Longrightarrow>
     cache (fst (close st appid (socket ws) (connectionId ws) ic)) = (cache st)(appid := None)"
  by (simp add: close_def Let_def)

lemma create_cache:
  "cache (fst (createWebSocketConnection st cfg)) =
     (if cfg_appId cfg = ''default'' \<or> cfg_eventType cfg \<noteq> 2 then cache st
      else (cache st)(cfg_appId cfg := None))"
  by (auto simp: createWebSocketConnection_def Let_def split_beta close_own_entry
        split: option.splits)

lemma stop_cache:
  "cache (fst (stopWebSocketConnection st appid)) = (cache st)(appid := None)"
  by (auto simp: stopWebSocketConnection_def Let_def split_beta close_own_entry
        split: option.splits)

lemma on_message_ids:
  "map_option (\<lambda>w. (socket w, connectionId w)) (cache (fst (on_message st ses data)) x)
     = map_option (\<lambda>w. (socket w, connectionId w)) (cache st x)"
  by (simp add: on_message_def Let_def split_beta handle_ids split: option.splits)

lemma on_close_cache:
  "cache (fst (on_close st ses code)) x = Some ws \<Longrightarrow> cache st x = Some ws"
  by (auto simp: on_close_def Let_def split_beta begin_cache close_cache
        split: if_splits option.splits)

lemma on_error_cache:
  "cache (fst (on_error st ses)) x = Some ws \<Longrightarrow> cache st x = Some ws"
  by (auto simp: on_error_def Let_def split_beta close_cache split: if_splits option.splits)

lemma on_open_cache:
  "cache (fst (on_open st ses)) x = Some ws \<Longrightarrow>
     cache st x = Some ws
     \<or> (x = cfg_appId (config ses) \<and> connectionId ws = ses_connectionId ses \<and> \<not> isStale st ses)"
  by (auto simp: on_open_def split: if_splits)

lemma ws_on_cache:
  assumes "cache (fst (ws_on st ses e)) x = Some ws'"
  shows "(\<exists>ws. cache st x = Some ws \<and> connectionId ws = connectionId ws')
       \<or> (x = cfg_appId (config ses) \<and> connectionId ws' = ses_connectionId ses \<and> \<not> isStale st ses)"
proof (cases e)
  case EvOpen
  with assms on_open_cache [of st ses x ws'] show ?thesis by auto
next
  case (EvMessage data)
  with assms on_message_ids [of st ses data x] show ?thesis
    by (cases "cache st x") auto
next
  case (EvClose code)
  with assms on_close_cache [of st ses code x ws'] show ?thesis by auto
next
  case EvError
  with assms on_error_cache [of st ses x ws'] show ?thesis by auto
next
  case EvTimeout
  with assms show ?thesis by (simp add: split_beta)
qed

lemma ws_step_cache:
  assumes "cache (ws_step st op) x = Some ws'"
  shows "(\<exists>ws. cache st x = Some ws \<and> connectionId ws = connectionId ws'
            \<and> seq_of (ws_step st op) x = seq_of st x)
       \<or> (\<exists>ses e. op = OpSocket ses e \<and> x = cfg_appId (config ses)
            \<and> connectionId ws' = ses_connectionId ses \<and> \<not> isStale st ses
            \<and> seq_of (ws_step st op) x = seq_of st x)"
proof (cases op)
  case (OpCreate cfg)
  with assms show ?thesis
    by (auto simp: create_cache create_attemptSeq seq_of_def split: if_splits)
next
  case (OpStop appid)
  with assms show ?thesis
    by (auto simp: stop_cache stop_attemptSeq seq_of_def split: if_splits)
next
  case (OpSocket ses e)
  with assms ws_on_cache [of st ses e x ws'] show ?thesis
    by (auto simp: seq_of_def ws_on_attemptSeq)
next
  case (OpReconnect appid n)
  with assms show ?thesis by (simp add: begin_cache begin_attemptSeq seq_of_def)
next
  case (OpClearReconnectCount appid)
  with assms show ?thesis by (simp add: seq_of_def)
qed

text \<open>
  In every run, the connection cached for an identity is the one of the session that the
  identity's current attempt made.
\<close>

lemma cached_is_current:
  assumes "reachable w" and "cache (w_state w) x = Some ws"
  shows "w_owner w x (seq_of (w_state w) x) = Some (connectionId ws)"
  using assms
proof (induction arbitrary: x ws rule: reachable.induct)
  case start
  then show ?case by simp
next
  case (token w tokens)
  then show ?case by (simp add: seq_of_def)
next
  case (step w op)
  from step.prems ws_step_cache [of "w_state w" op x ws]
  consider (kept) ws0 where "cache (w_state w) x = Some ws0" "connectionId ws0 = connectionId ws"
      "seq_of (ws_step (w_state w) op) x = seq_of (w_state w) x"
    | (opened) ses e where "op = OpSocket ses e" "x = cfg_appId (config ses)"
      "connectionId ws = ses_connectionId ses" "\<not> isStale (w_state w) ses"
      "seq_of (ws_step (w_state w) op) x = seq_of (w_state w) x"
    by auto
  then show ?case
  proof cases
    case kept
    with step.IH [of x ws0] show ?thesis by simp
  next
    case opened
    from opened(1) step.hyps(2) have "owned w ses" by blast
    moreover from opened(4) have "seq_of (w_state w) (cfg_appId (config ses)) = attempt ses"
      by (simp add: isStale_def seq_of_def)
    ultimately show ?thesis using opened by (simp add: owned_def)
  qed
next
  case (gateway w a url sock cid ses fx)
  from gateway.prems have c: "cache (w_state w) x = Some ws" by simp
  from gateway.IH [OF c] gateway.hyps(2) show ?case by auto
qed

text \<open>
  C6. In every run of the module, while the cache holds for an identity a connection that
  is not this session's own (another connection id), nothing this session does touches
  the cache: every one of its callbacks (open, message, close, error, timer) and its
  \<open>close\<close> closure leave the whole cache as it is and cancel no heartbeat timer. So
  closing a superseded session neither deletes the newer session's entry nor stops its
  heartbeat.
\<close>

theorem cache_entry_only_touched_by_owner:
  assumes "reachable w" and "owned w ses"
    and "cache (w_state w) (cfg_appId (config ses)) = Some ws"
    and "connectionId ws \<noteq> ses_connectionId ses"
  shows "cache (fst (ws_on (w_state w) ses e)) = cache (w_state w)
       \<and> ClearInterval tm \<notin> set (snd (snd (ws_on (w_state w) ses e)))
       \<and> cache (fst (close (w_state w) (cfg_appId (config ses)) (ses_socket ses)
                       (ses_connectionId ses) ic)) = cache (w_state w)
       \<and> ClearInterval tm \<notin> set (snd (close (w_state w) (cfg_appId (config ses)) (ses_socket ses)
                                          (ses_connectionId ses) ic))"
proof -
  let ?x = "cfg_appId (config ses)"
  from cached_is_current [OF assms(1,3)]
  have cur: "w_owner w ?x (seq_of (w_state w) ?x) = Some (connectionId ws)" .
  have "isStale (w_state w) ses"
  proof (rule ccontr)
    assume "\<not> isStale (w_state w) ses"
    then have "seq_of (w_state w) ?x = attempt ses"
      by (simp add: isStale_def seq_of_def)
    with cur assms(2,4) show False by (simp add: owned_def)
  qed
  with foreign_entry_untouched [OF assms(3,4), of ic tm e] show ?thesis by blast
qed

lemma ex_world_reachable: "reachable ex_world"
proof -
  let ?o0 = "(\<lambda>appid :: string. (Map.empty :: nat \<rightharpoonup> nat))"
  let ?o1 = "?o0(''102'' := [1 \<mapsto> 3])"
  let ?o2 = "?o0(''102'' := [1 \<mapsto> 3, 2 \<mapsto> 4])"
  have w0: "reachable \<lparr>w_state = \<lparr>cache = Map.empty, attemptSeq = Map.empty,
        reconnectAttempts = Map.empty, BotMap = Map.empty\<rparr>, w_owner = ?o0\<rparr>"
    by (rule reachable.start)
  from reachable.token [OF w0, of "[''102'' \<mapsto> ''tok'']"]
  have w1: "reachable \<lparr>w_state = ex_st0, w_owner = ?o0\<rparr>"
    by (simp add: ex_st0_def)
  from reachable.step [OF w1, of "OpCreate ex_cfg"]
  have w2: "reachable \<lparr>w_state = ex_st1, w_owner = ?o0\<rparr>"
    by (simp add: createWebSocketConnection_def ex_st0_def ex_st1_def ex_cfg_def seq_of_def Let_def)
  have g1: "on_gateway ex_st1 ex_attempt (Some ''wss://api.sgroup.qq.com/websocket'') 7 3
       = (Inr ex_session, [NewWebSocket ''wss://api.sgroup.qq.com/websocket'' 7])"
    by (simp add: on_gateway_def isStale_def ex_st0_def ex_st1_def ex_cfg_def ex_attempt_def
          ex_session_def)
  from reachable.gateway [OF w2, where a = ex_attempt
      and url = "Some ''wss://api.sgroup.qq.com/websocket''" and sock = 7 and cid = 3
      and ses = ex_session and fx = "[NewWebSocket ''wss://api.sgroup.qq.com/websocket'' 7]"] g1
  have w3: "reachable \<lparr>w_state = ex_st1, w_owner = ?o1\<rparr>"
    by (simp add: ex_attempt_def ex_cfg_def)
  have "owned \<lparr>w_state = ex_st1, w_owner = ?o1\<rparr> ex_session"
    by (simp add: owned_def ex_session_def ex_cfg_def)
  with reachable.step [OF w3, of "OpSocket ex_session EvOpen"]
  have w4: "reachable \<lparr>w_state = ex_live, w_owner = ?o1\<rparr>"
    by (simp add: on_open_def isStale_def ex_live_def ex_st1_def ex_st0_def ex_session_def
          ex_cfg_def)
  let ?st5 = "ex_st0\<lparr>attemptSeq := [''102'' \<mapsto> 2]\<rparr>"
  from reachable.step [OF w4, of "OpCreate ex_cfg"]
  have w5: "reachable \<lparr>w_state = ?st5, w_owner = ?o1\<rparr>"
    by (simp add: createWebSocketConnection_def close_def ex_live_def ex_st0_def ex_st1_def
          ex_cfg_def seq_of_def Let_def numeral_2_eq_2)
  have g2: "on_gateway ?st5 \<lparr>config = ex_cfg, attempt = 2, resolved = None\<rparr>
        (Some ''wss://api.sgroup.qq.com/websocket'') 8 4
       = (Inr ex_session2, [NewWebSocket ''wss://api.sgroup.qq.com/websocket'' 8])"
    by (simp add: on_gateway_def isStale_def ex_st0_def ex_cfg_def ex_session2_def)
  from reachable.gateway [OF w5, where a = "\<lparr>config = ex_cfg, attempt = 2, resolved = None\<rparr>"
      and url = "Some ''wss://api.sgroup.qq.com/websocket''" and sock = 8 and cid = 4
      and ses = ex_session2 and fx = "[NewWebSocket ''wss://api.sgroup.qq.com/websocket'' 8]"] g2
  have w6: "reachable \<lparr>w_state = ?st5, w_owner = ?o2\<rparr>"
    by (simp add: ex_cfg_def fun_upd_twist)
  have "owned \<lparr>w_state = ?st5, w_owner = ?o2\<rparr> ex_session2"
    by (simp add: owned_def ex_session2_def ex_cfg_def)
  with reachable.step [OF w6, of "OpSocket ex_session2 EvOpen"]
  show ?thesis
    by (simp add: on_open_def isStale_def ex_world_def ex_st0_def ex_session2_def ex_cfg_def)
qed

theorem cache_entry_only_touched_by_owner_witness:
  "reachable ex_world \<and> owned ex_world ex_session
   \<and> cache (w_state ex_world) (cfg_appId (config ex_session))
       = Some \<lparr>socket = 8, connectionId = 4, heartbeatTimer = None\<rparr>
   \<and> connectionId \<lparr>socket = 8, connectionId = 4, heartbeatTimer = None\<rparr>
       \<noteq> ses_connectionId ex_session
   \<and> cache (fst (ws_on (w_state ex_world) ex_session (EvClose 1006))) = cache (w_state ex_world)
   \<and> cache (fst (ws_on (w_state ex_world) ex_session EvOpen)) = cache (w_state ex_world)"
proof -
  have h2: "owned ex_world ex_session"
    by (simp add: owned_def ex_world_def ex_session_def ex_cfg_def)
  have h3: "cache (w_state ex_world) (cfg_appId (config ex_session))
       = Some \<lparr>socket = 8, connectionId = 4, heartbeatTimer = None\<rparr>"
    by (simp add: ex_world_def ex_session_def ex_cfg_def)
  have h4: "connectionId \<lparr>socket = 8, connectionId = 4, heartbeatTimer = None\<rparr>
       \<noteq> ses_connectionId ex_session"
    by (simp add: ex_session_def)
  note t = cache_entry_only_touched_by_owner [OF ex_world_reachable h2 h3 h4]
  from t [where e = "EvClose 1006"] t [where e = EvOpen] ex_world_reachable h2 h3 h4
  show ?thesis by blast
qed

subsection \<open>The reconnect counter in every run\<close>

lemma begin_reconnectAttempts:
  "reconnectAttempts (fst (attemptReconnect_begin st appid k)) x = Some n \<Longrightarrow>
     n \<le> maxAttempts \<or> reconnectAttempts st x = Some n"
  by (auto simp: attemptReconnect_begin_def split: if_splits)

lemma setHeartbeatInterval_reconnectAttempts:
  "reconnectAttempts (fst (setHeartbeatInterval st ses i)) = reconnectAttempts st"
  by (simp add: setHeartbeatInterval_def Let_def split: option.splits)

lemma handle_reconnectAttempts:
  "reconnectAttempts (fst (handleWebSocketMessage st ses data)) x = Some n \<Longrightarrow>
     n \<le> maxAttempts \<or> reconnectAttempts st x = Some n"
  using begin_reconnectAttempts [of st "cfg_appId (config ses)" 0 x n]
  by (cases "f_op data")
     (auto simp: handleWebSocketMessage_def Let_def split_beta
        setHeartbeatInterval_reconnectAttempts)

lemma ws_on_reconnectAttempts:
  assumes "reconnectAttempts (fst (ws_on st ses e)) x = Some n"
  shows "n \<le> maxAttempts \<or> reconnectAttempts st x = Some n"
proof (cases e)
  case EvOpen
  with assms show ?thesis by (simp add: on_open_def split: if_splits)
next
  case (EvMessage data)
  with assms handle_reconnectAttempts [of st _ data x n] show ?thesis
    by (auto simp: on_message_def Let_def split_beta split: if_splits option.splits)
next
  case (EvClose code)
  with assms show ?thesis
    by (auto simp: on_close_reconnect maxAttempts_def split: if_splits)
next
  case EvError
  with assms show ?thesis
    by (simp add: on_error_def Let_def split_beta close_reconnectAttempts split: if_splits)
next
  case EvTimeout
  with assms show ?thesis by (simp add: split_beta)
qed

lemma create_reconnectAttempts:
  "reconnectAttempts (fst (createWebSocketConnection st cfg)) = reconnectAttempts st"
  by (simp add: createWebSocketConnection_def Let_def split_beta close_reconnectAttempts
        split: option.splits)

lemma stop_reconnectAttempts:
  "reconnectAttempts (fst (stopWebSocketConnection st appid)) = (reconnectAttempts st)(appid := None)"
  by (simp add: stopWebSocketConnection_def Let_def split_beta close_reconnectAttempts
        split: option.splits)

lemma ws_step_reconnectAttempts:
  assumes "reconnectAttempts (ws_step st op) x = Some n"
  shows "n \<le> maxAttempts \<or> reconnectAttempts st x = Some n"
proof (cases op)
  case (OpCreate cfg)
  with assms show ?thesis by (simp add: create_reconnectAttempts)
next
  case (OpStop appid)
  with assms show ?thesis by (simp add: stop_reconnectAttempts split: if_splits)
next
  case (OpSocket ses e)
  with assms ws_on_reconnectAttempts [of st ses e x n] show ?thesis by simp
next
  case (OpReconnect appid k)
  with assms begin_reconnectAttempts [of st appid k x n] show ?thesis by simp
next
  case (OpClearReconnectCount appid)
  with assms show ?thesis by (simp split: if_splits)
qed

text \<open>In every run the reconnect counter of an identity, when there is one, is at most 5.\<close>

lemma counter_bounded:
  assumes "reachable w" and "reconnectAttempts (w_state w) x = Some n"
  shows "n \<le> maxAttempts"
  using assms
proof (induction arbitrary: n rule: reachable.induct)
  case start
  then show ?case by simp
next
  case (token w tokens)
  then show ?case by simp
next
  case (step w op)
  from step.prems ws_step_reconnectAttempts [of "w_state w" op x n] step.IH [of n]
  show ?case by auto
next
  case (gateway w a url sock cid ses fx)
  then show ?case by simp
qed


section \<open>The reconnection chain\<close>

lemma sleeps_append: "sleeps (xs @ ys) = sleeps xs @ sleeps ys"
  by (induction xs rule: sleeps.induct) simp_all

lemma creations_append: "creations (xs @ ys) = creations xs @ creations ys"
  by (induction xs rule: creations.induct) simp_all

lemma close_quiet:
  "sleeps (snd (close st appid sock cid ic)) = []"
  "creations (snd (close st appid sock cid ic)) = []"
  by (simp_all add: close_def Let_def split: option.splits)

lemma create_quiet:
  "sleeps (snd (snd (createWebSocketConnection st cfg))) = []"
  "creations (snd (snd (createWebSocketConnection st cfg))) = []"
  by (simp_all add: createWebSocketConnection_def Let_def split_beta sleeps_append
        creations_append close_quiet split: option.splits)

lemma begin_effects:
  "k < maxAttempts \<Longrightarrow> sleeps (snd (attemptReconnect_begin st appid k)) = [backoff k]"
  "creations (snd (attemptReconnect_begin st appid k)) = []"
  by (simp_all add: attemptReconnect_begin_def)

lemma begin_counter:
  "reconnectAttempts (fst (attemptReconnect_begin st appid k)) appid =
     (if k < maxAttempts then Some (k + 1) else None)"
  by (simp add: attemptReconnect_begin_def)

declare attemptReconnect.simps [simp del]

text \<open>The three ways through one round of the chain, as equations.\<close>

lemma attemptReconnect_gave_up:
  "maxAttempts \<le> k \<Longrightarrow>
     attemptReconnect env cfg k st =
       (fst (attemptReconnect_begin st (cfg_appId cfg) k), GaveUp,
        snd (attemptReconnect_begin st (cfg_appId cfg) k))"
  by (subst attemptReconnect.simps) (simp add: split_beta)

lemma attemptReconnect_superseded:
  assumes "k < maxAttempts"
    and "reconnectAttempts (while_sleeping env (Suc k) (fst (attemptReconnect_begin st (cfg_appId cfg) k)))
           (cfg_appId cfg) \<noteq> Some (Suc k)"
  shows "attemptReconnect env cfg k st =
       (while_sleeping env (Suc k) (fst (attemptReconnect_begin st (cfg_appId cfg) k)), Superseded,
        snd (attemptReconnect_begin st (cfg_appId cfg) k))"
  using assms by (subst attemptReconnect.simps) (simp add: split_beta Let_def)

lemma attemptReconnect_connect:
  assumes "k < maxAttempts"
    and "st2 = while_sleeping env (Suc k) (fst (attemptReconnect_begin st (cfg_appId cfg) k))"
    and "reconnectAttempts st2 (cfg_appId cfg) = Some (Suc k)"
  shows "attemptReconnect env cfg k st =
     (if \<not> fst (connected env cfg (Suc k) st2)
      then (fst (attemptReconnect env cfg (Suc k) (snd (connected env cfg (Suc k) st2))),
            fst (snd (attemptReconnect env cfg (Suc k) (snd (connected env cfg (Suc k) st2)))),
            snd (attemptReconnect_begin st (cfg_appId cfg) k) @ CreateConnection (Suc k)
              # snd (snd (createWebSocketConnection st2 cfg)) @ Logger LWarn
              # snd (snd (attemptReconnect env cfg (Suc k) (snd (connected env cfg (Suc k) st2)))))
      else ((snd (connected env cfg (Suc k) st2))\<lparr>reconnectAttempts :=
               (reconnectAttempts (snd (connected env cfg (Suc k) st2)))(cfg_appId cfg := None)\<rparr>,
            Reconnected,
            snd (attemptReconnect_begin st (cfg_appId cfg) k) @ CreateConnection (Suc k)
              # snd (snd (createWebSocketConnection st2 cfg)) @ [Logger LDebug]))"
  using assms
  by (subst attemptReconnect.simps)
     (simp add: split_beta Let_def connected_def split: open_result.splits)

lemma upt_shift: "[k..<k + Suc n] = k # [Suc k..<Suc k + n]"
  using upt_conv_Cons [of k "k + Suc n"] by (simp del: upt_Suc)

lemma attemptReconnect_trace:
  assumes "k \<le> maxAttempts"
  shows "sleeps (snd (snd (attemptReconnect env cfg k st)))
           = map backoff [k..<k + length (sleeps (snd (snd (attemptReconnect env cfg k st))))]
       \<and> k + length (sleeps (snd (snd (attemptReconnect env cfg k st)))) \<le> maxAttempts
       \<and> creations (snd (snd (attemptReconnect env cfg k st)))
           = [Suc k..<Suc k + length (creations (snd (snd (attemptReconnect env cfg k st))))]
       \<and> (fst (snd (attemptReconnect env cfg k st)) = Superseded \<longrightarrow>
            length (creations (snd (snd (attemptReconnect env cfg k st))))
              < length (sleeps (snd (snd (attemptReconnect env cfg k st)))))
       \<and> (fst (snd (attemptReconnect env cfg k st)) \<noteq> Superseded \<longrightarrow>
            length (creations (snd (snd (attemptReconnect env cfg k st))))
              = length (sleeps (snd (snd (attemptReconnect env cfg k st))))
            \<and> reconnectAttempts (fst (attemptReconnect env cfg k st)) (cfg_appId cfg) = None)"
  using assms
proof (induction "maxAttempts - k" arbitrary: k st)
  case 0
  then have "maxAttempts \<le> k" by simp
  with "0.prems" show ?case
    by (simp add: attemptReconnect_gave_up attemptReconnect_begin_def)
next
  case (Suc m)
  then have k: "k < maxAttempts" by simp
  define st2 where "st2 = while_sleeping env (Suc k) (fst (attemptReconnect_begin st (cfg_appId cfg) k))"
  show ?case
  proof (cases "reconnectAttempts st2 (cfg_appId cfg) = Some (Suc k)")
    case False
    from attemptReconnect_superseded [OF k False [unfolded st2_def]] k
    show ?thesis by (simp add: begin_effects)
  next
    case True
    note eq = attemptReconnect_connect [OF k st2_def True]
    show ?thesis
    proof (cases "fst (connected env cfg (Suc k) st2)")
      case True
      with eq k show ?thesis
        by (simp add: sleeps_append creations_append begin_effects create_quiet)
    next
      case False
      let ?r = "attemptReconnect env cfg (Suc k) (snd (connected env cfg (Suc k) st2))"
      from Suc.hyps(2) k have "m = maxAttempts - Suc k" "Suc k \<le> maxAttempts" by simp_all
      from Suc.hyps(1) [OF this, of "snd (connected env cfg (Suc k) st2)"]
      have ih: "sleeps (snd (snd ?r)) = map backoff [Suc k..<Suc k + length (sleeps (snd (snd ?r)))]"
        "Suc k + length (sleeps (snd (snd ?r))) \<le> maxAttempts"
        "creations (snd (snd ?r)) = [Suc (Suc k)..<Suc (Suc k) + length (creations (snd (snd ?r)))]"
        "fst (snd ?r) = Superseded \<longrightarrow> length (creations (snd (snd ?r))) < length (sleeps (snd (snd ?r)))"
        "fst (snd ?r) \<noteq> Superseded \<longrightarrow>
            length (creations (snd (snd ?r))) = length (sleeps (snd (snd ?r)))
            \<and> reconnectAttempts (fst ?r) (cfg_appId cfg) = None"
        by simp_all
      have fx: "snd (snd (attemptReconnect env cfg k st)) =
          snd (attemptReconnect_begin st (cfg_appId cfg) k) @ CreateConnection (Suc k)
              # snd (snd (createWebSocketConnection st2 cfg)) @ Logger LWarn # snd (snd ?r)"
        and ex: "fst (snd (attemptReconnect env cfg k st)) = fst (snd ?r)"
        and st': "fst (attemptReconnect env cfg k st) = fst ?r"
        using eq False by simp_all
      have sl: "sleeps (snd (snd (attemptReconnect env cfg k st))) = backoff k # sleeps (snd (snd ?r))"
        by (simp add: fx sleeps_append begin_effects k create_quiet)
      have cr: "creations (snd (snd (attemptReconnect env cfg k st)))
          = Suc k # creations (snd (snd ?r))"
        by (simp add: fx creations_append begin_effects create_quiet)
      have s1: "sleeps (snd (snd (attemptReconnect env cfg k st)))
           = map backoff [k..<k + length (sleeps (snd (snd (attemptReconnect env cfg k st))))]"
        unfolding sl using ih(1) by (simp only: length_Cons upt_shift list.map)
      have c1: "creations (snd (snd (attemptReconnect env cfg k st)))
           = [Suc k..<Suc k + length (creations (snd (snd (attemptReconnect env cfg k st))))]"
        unfolding cr using ih(3) by (simp only: length_Cons upt_shift)
      have len: "length (sleeps (snd (snd (attemptReconnect env cfg k st))))
            = Suc (length (sleeps (snd (snd ?r))))"
        "length (creations (snd (snd (attemptReconnect env cfg k st))))
            = Suc (length (creations (snd (snd ?r))))"
        by (simp_all add: sl cr)
      from ih(2,4,5) have rest: "k + length (sleeps (snd (snd (attemptReconnect env cfg k st)))) \<le> maxAttempts
       \<and> (fst (snd (attemptReconnect env cfg k st)) = Superseded \<longrightarrow>
            length (creations (snd (snd (attemptReconnect env cfg k st))))
              < length (sleeps (snd (snd (attemptReconnect env cfg k st)))))
       \<and> (fst (snd (attemptReconnect env cfg k st)) \<noteq> Superseded \<longrightarrow>
            length (creations (snd (snd (attemptReconnect env cfg k st))))
              = length (sleeps (snd (snd (attemptReconnect env cfg k st))))
            \<and> reconnectAttempts (fst (attemptReconnect env cfg k st)) (cfg_appId cfg) = None)"
        by (simp add: len ex st')
      from s1 c1 rest show ?thesis by blast
    qed
  qed
qed

text \<open>
  One chain on its own, whatever the other tasks do during its two \<open>await\<close>s. A chain
  entered with count 0 makes at most 5 connection attempts, numbered 1, 2, ... in order,
  and sleeps at most 5 times; the k-th back-off (from 0) lasts
  \<open>min (1000 * 2 ^ k) 16000\<close> ms. The counter it stores is never above 5, and in every
  run of the module the counter of an identity is never above 5. When the chain
  ends with a successful connection, the counter of the identity is cleared. When the
  counter no longer holds the registered value after a back-off, the round returns with
  the shared maps as the others left them and without any connection attempt.
\<close>

lemma single_chain_bounded:
  assumes "attemptReconnect env cfg 0 st = (st', ex, fx)"
  shows "length (creations fx) \<le> 5
       \<and> creations fx = [1..<Suc (length (creations fx))]
       \<and> length (sleeps fx) \<le> 5
       \<and> sleeps fx = map (\<lambda>k. min (1000 * 2 ^ k) 16000) [0..<length (sleeps fx)]
       \<and> (ex = Reconnected \<longrightarrow> reconnectAttempts st' (cfg_appId cfg) = None)
       \<and> (ex = Superseded \<longrightarrow> length (creations fx) < length (sleeps fx))
       \<and> (case reconnectAttempts (fst (attemptReconnect_begin s (cfg_appId cfg) k)) (cfg_appId cfg) of
             Some n \<Rightarrow> n \<le> 5 | None \<Rightarrow> True)
       \<and> (reachable w \<and> reconnectAttempts (w_state w) x = Some m \<longrightarrow> m \<le> 5)
       \<and> (k < 5 \<and> reconnectAttempts (while_sleeping env (Suc k)
                      (fst (attemptReconnect_begin s (cfg_appId cfg) k))) (cfg_appId cfg) \<noteq> Some (Suc k)
            \<longrightarrow> attemptReconnect env cfg k s =
                  (while_sleeping env (Suc k) (fst (attemptReconnect_begin s (cfg_appId cfg) k)),
                   Superseded, [Logger LDebug, Sleep (min (1000 * 2 ^ k) 16000)]))"
proof -
  have b: "backoff = (\<lambda>k. min (1000 * 2 ^ k) 16000)"
    by (rule ext) (simp add: backoff_def)
  from attemptReconnect_trace [of 0 env cfg st] assms
  have t: "sleeps fx = map backoff [0..<length (sleeps fx)]"
    "length (sleeps fx) \<le> maxAttempts"
    "creations fx = [Suc 0..<Suc (length (creations fx))]"
    "ex = Superseded \<longrightarrow> length (creations fx) < length (sleeps fx)"
    "ex \<noteq> Superseded \<longrightarrow> length (creations fx) = length (sleeps fx)
        \<and> reconnectAttempts st' (cfg_appId cfg) = None"
    by simp_all
  from t(2,4,5) have c: "length (creations fx) \<le> 5"
    by (cases "ex = Superseded") (simp_all add: maxAttempts_def)
  have n: "case reconnectAttempts (fst (attemptReconnect_begin s (cfg_appId cfg) k)) (cfg_appId cfg) of
             Some n \<Rightarrow> n \<le> 5 | None \<Rightarrow> True"
    by (simp add: begin_counter maxAttempts_def)
  have s: "k < 5 \<and> reconnectAttempts (while_sleeping env (Suc k)
                      (fst (attemptReconnect_begin s (cfg_appId cfg) k))) (cfg_appId cfg) \<noteq> Some (Suc k)
            \<longrightarrow> attemptReconnect env cfg k s =
                  (while_sleeping env (Suc k) (fst (attemptReconnect_begin s (cfg_appId cfg) k)),
                   Superseded, [Logger LDebug, Sleep (min (1000 * 2 ^ k) 16000)])"
  proof
    assume a: "k < 5 \<and> reconnectAttempts (while_sleeping env (Suc k)
                      (fst (attemptReconnect_begin s (cfg_appId cfg) k))) (cfg_appId cfg) \<noteq> Some (Suc k)"
    then have k: "k < maxAttempts" by (simp add: maxAttempts_def)
    from attemptReconnect_superseded [OF k] a k
    show "attemptReconnect env cfg k s =
                  (while_sleeping env (Suc k) (fst (attemptReconnect_begin s (cfg_appId cfg) k)),
                   Superseded, [Logger LDebug, Sleep (min (1000 * 2 ^ k) 16000)])"
      by (simp add: attemptReconnect_begin_def backoff_def)
  qed
  from t(5) have r: "ex = Reconnected \<longrightarrow> reconnectAttempts st' (cfg_appId cfg) = None"
    by simp
  from t(1) have sl: "sleeps fx = map (\<lambda>k. min (1000 * 2 ^ k) 16000) [0..<length (sleeps fx)]"
    by (simp only: b)
  from t(2) have l: "length (sleeps fx) \<le> 5" by (simp add: maxAttempts_def)
  from t(3) have cr: "creations fx = [1..<Suc (length (creations fx))]" by simp
  have w: "reachable w \<and> reconnectAttempts (w_state w) x = Some m \<longrightarrow> m \<le> 5"
    using counter_bounded [of w x m] by (simp add: maxAttempts_def)
  from c cr l sl r t(4) n s w show ?thesis by blast
qed


section \<open>Two chains for one identity\<close>

text \<open>
  C3 fails on the code: the attempts of one identity are not bounded by 5. In the run
  \<open>ex_outage\<close> identity 102 connects and gets READY, the server sends a Reconnect frame,
  and the close event of the socket follows with code 1005. The frame handler enters
  \<open>attemptReconnect\<close> with count 0 and so does the close listener, so two chains sleep
  with the same registered counter 1, and the check of the counter after the back-off
  lets both through. From then on no connection succeeds, and each chain goes through
  its five rounds: between the disconnection and the moment both chains give up,
  \<open>createWebSocketConnection\<close> is called ten times for the identity by
  \<open>attemptReconnect\<close>, twice with each attempt number 1 to 5, after the back-offs 1000,
  2000, 4000, 8000 and 16000 ms taken twice each, and none of the ten promises is resolved
  with true.
\<close>

theorem reconnect_frame_runs_two_chains:
  "(case pool_run ex_pool (ex_connect @ ex_reconnect_frame) of
      (p, fx) \<Rightarrow>
        p_chains p = [Sleeping ex_cfg 1, Sleeping ex_cfg 1]
        \<and> map promise (p_pending p) = [Some True]
        \<and> reconnectAttempts (p_state p) ''102'' = Some 1
        \<and> creations fx = [])
   \<and> (case pool_run ex_pool ex_outage of
        (p, fx) \<Rightarrow>
          creations fx = [1, 1, 2, 2, 3, 3, 4, 4, 5, 5]
          \<and> maxAttempts < length (creations fx)
          \<and> sleeps fx = [1000, 1000, 2000, 2000, 4000, 4000, 8000, 8000, 16000, 16000]
          \<and> map promise (p_pending p) = Some True # map (\<lambda>j. Some False) [1 ..< 11]
          \<and> p_chains p = [Ended GaveUp, Ended GaveUp])"
proof -
  note defs = promise_def config_of_def chain_enter_def chain_settle_def chain_wake_def
    entered_def ex_url_def ex_pool_def ex_connect_def ex_reconnect_frame_def ex_round_def
    ex_outage_def createWebSocketConnection_def on_gateway_def on_message_def on_close_def
    on_error_def on_open_def handleWebSocketMessage_def setHeartbeatInterval_def close_def
    resolveOnce_def attemptReconnect_begin_def maxAttempts_def backoff_def isStale_def
    seq_of_def identify_token_def ex_st0_def ex_cfg_def ex_frame_def Let_def
  have a: "case pool_run ex_pool (ex_connect @ ex_reconnect_frame) of
      (p, fx) \<Rightarrow>
        p_chains p = [Sleeping ex_cfg 1, Sleeping ex_cfg 1]
        \<and> map promise (p_pending p) = [Some True]
        \<and> reconnectAttempts (p_state p) ''102'' = Some 1
        \<and> creations fx = []"
    by (simp add: defs)
  have b: "case pool_run ex_pool ex_outage of
        (p, fx) \<Rightarrow>
          creations fx = [1, 1, 2, 2, 3, 3, 4, 4, 5, 5]
          \<and> maxAttempts < length (creations fx)
          \<and> sleeps fx = [1000, 1000, 2000, 2000, 4000, 4000, 8000, 8000, 16000, 16000]
          \<and> map promise (p_pending p) = Some True # map (\<lambda>j. Some False) [1 ..< 11]
          \<and> p_chains p = [Ended GaveUp, Ended GaveUp]"
    by (simp add: defs upt_conv_Cons)
  from a b show ?thesis by (rule conjI)
qed


section \<open>Composer: unsupported elements and the fallback payload\<close>

lemma classify_qq_unsupported:
  "\<not> supported_qq v \<Longrightarrow> classify_qq env c d v = Inr (d, [(LDebug, el_type v)])"
  by (cases v) simp_all

lemma classify_guild_unsupported:
  "\<not> supported_guild v \<Longrightarrow> classify_guild env c d v = Inr (d, [(LDebug, el_type v)])"
  by (cases v) simp_all

lemma hendleText_log:
  "hendleText env text = Inr (text', qr, qrlist, lg) \<Longrightarrow> filter (\<lambda>e. fst e = LDebug) lg = []"
  by (auto simp: hendleText_def Let_def split: if_splits sum.splits)

lemma push_text_log:
  "push_text env d text = Inr (d', lg) \<Longrightarrow> filter (\<lambda>e. fst e = LDebug) lg = []"
  by (auto simp: push_text_def Let_def split: sum.splits if_splits dest: hendleText_log)

lemma classify_qq_supported_log:
  "supported_qq v \<Longrightarrow> classify_qq env c d v = Inr (d', lg) \<Longrightarrow>
     filter (\<lambda>e. fst e = LDebug) lg = []"
  by (cases v) (auto simp: Let_def split: if_splits sum.splits dest: push_text_log)

lemma classify_guild_supported_log:
  "supported_guild v \<Longrightarrow> classify_guild env c d v = Inr (d', lg) \<Longrightarrow>
     filter (\<lambda>e. fst e = LDebug) lg = []"
  by (cases v) (auto simp: Let_def split: if_splits sum.splits dest: push_text_log)

lemma qq_loop_filter:
  "map_sum id fst (qq_loop env c els d) = map_sum id fst (qq_loop env c (filter supported_qq els) d)"
proof (induction els arbitrary: d)
  case Nil
  show ?case by simp
next
  case (Cons v vs)
  show ?case
  proof (cases "supported_qq v")
    case False
    have a: "map_sum id fst (qq_loop env c (v # vs) d) = map_sum id fst (qq_loop env c vs d)"
      by (simp add: classify_qq_unsupported [OF False] split: sum.splits)
    have b: "filter supported_qq (v # vs) = filter supported_qq vs"
      using False by simp
    show ?thesis unfolding a b by (rule Cons.IH)
  next
    case True
    show ?thesis
    proof (cases "classify_qq env c d v")
      case (Inl e)
      with True show ?thesis by simp
    next
      case (Inr r)
      obtain d1 lg1 where r: "r = (d1, lg1)" by (cases r)
      from Cons.IH [of d1] True Inr r show ?thesis
        by (auto split: sum.splits)
    qed
  qed
qed

lemma guild_loop_filter:
  "map_sum id fst (guild_loop env c els d)
     = map_sum id fst (guild_loop env c (filter supported_guild els) d)"
proof (induction els arbitrary: d)
  case Nil
  show ?case by simp
next
  case (Cons v vs)
  show ?case
  proof (cases "supported_guild v")
    case False
    have a: "map_sum id fst (guild_loop env c (v # vs) d) = map_sum id fst (guild_loop env c vs d)"
      by (simp add: classify_guild_unsupported [OF False] split: sum.splits)
    have b: "filter supported_guild (v # vs) = filter supported_guild vs"
      using False by simp
    show ?thesis unfolding a b by (rule Cons.IH)
  next
    case True
    show ?thesis
    proof (cases "classify_guild env c d v")
      case (Inl e)
      with True show ?thesis by simp
    next
      case (Inr r)
      obtain d1 lg1 where r: "r = (d1, lg1)" by (cases r)
      from Cons.IH [of d1] True Inr r show ?thesis
        by (auto split: sum.splits)
    qed
  qed
qed

lemma qq_loop_debug_log:
  "qq_loop env c els d = Inr (d', lg) \<Longrightarrow>
     filter (\<lambda>e. fst e = LDebug) lg
       = map (\<lambda>v. (LDebug, el_type v)) (filter (\<lambda>v. \<not> supported_qq v) els)"
proof (induction els arbitrary: d d' lg)
  case Nil
  then show ?case by simp
next
  case (Cons v vs)
  from Cons.prems obtain d1 lg1 lg2 where
    s: "classify_qq env c d v = Inr (d1, lg1)" "qq_loop env c vs d1 = Inr (d', lg2)"
    "lg = lg1 @ lg2"
    by (auto split: sum.splits)
  have "filter (\<lambda>e. fst e = LDebug) lg1 = (if supported_qq v then [] else [(LDebug, el_type v)])"
    using s(1) classify_qq_supported_log [of v env c d d1 lg1] classify_qq_unsupported [of v env c d]
    by (cases "supported_qq v") auto
  with Cons.IH [OF s(2)] s(3) show ?case by simp
qed

lemma guild_loop_debug_log:
  "guild_loop env c els d = Inr (d', lg) \<Longrightarrow>
     filter (\<lambda>e. fst e = LDebug) lg
       = map (\<lambda>v. (LDebug, el_type v)) (filter (\<lambda>v. \<not> supported_guild v) els)"
proof (induction els arbitrary: d d' lg)
  case Nil
  then show ?case by simp
next
  case (Cons v vs)
  from Cons.prems obtain d1 lg1 lg2 where
    s: "classify_guild env c d v = Inr (d1, lg1)" "guild_loop env c vs d1 = Inr (d', lg2)"
    "lg = lg1 @ lg2"
    by (auto split: sum.splits)
  have "filter (\<lambda>e. fst e = LDebug) lg1 = (if supported_guild v then [] else [(LDebug, el_type v)])"
    using s(1) classify_guild_supported_log [of v env c d d1 lg1]
      classify_guild_unsupported [of v env c d]
    by (cases "supported_guild v") auto
  with Cons.IH [OF s(2)] s(3) show ?case by simp
qed

lemma sendQQMsg_strip:
  "map_sum id fst (sendQQMsg env c els) =
     (case map_sum id fst (qq_loop env c els (initList_qq env)) of
        Inl e \<Rightarrow> Inl e
      | Inr d \<Rightarrow> (case assemble_qq env c d of Inl e \<Rightarrow> Inl e | Inr d' \<Rightarrow> deliver_qq env c d'))"
  by (auto simp: sendQQMsg_def compose_qq_def split: sum.splits)

lemma sendGuildMsg_strip:
  "map_sum id fst (sendGuildMsg env c els) =
     (case map_sum id fst (guild_loop env c els (initList_guild env)) of
        Inl e \<Rightarrow> Inl e
      | Inr d \<Rightarrow> (case assemble_guild env d of Inl e \<Rightarrow> Inl e | Inr d' \<Rightarrow> deliver_guild env c d'))"
  by (auto simp: sendGuildMsg_def compose_guild_def split: sum.splits)

lemma sendQQMsg_log:
  "sendQQMsg env c els = Inr (sent, lg) \<Longrightarrow>
     filter (\<lambda>e. fst e = LDebug) lg
       = map (\<lambda>v. (LDebug, el_type v)) (filter (\<lambda>v. \<not> supported_qq v) els)"
  by (auto simp: sendQQMsg_def compose_qq_def split: sum.splits dest: qq_loop_debug_log)

lemma sendGuildMsg_log:
  "sendGuildMsg env c els = Inr (sent, lg) \<Longrightarrow>
     filter (\<lambda>e. fst e = LDebug) lg
       = map (\<lambda>v. (LDebug, el_type v)) (filter (\<lambda>v. \<not> supported_guild v) els)"
  by (auto simp: sendGuildMsg_def compose_guild_def split: sum.splits dest: guild_loop_debug_log)

lemma deliver_qq_fallback:
  "d_list d = [] \<Longrightarrow>
     deliver_qq env c d =
       (let item = snd (pasmsg_normal c (d_pasmsg d)) (QQdMsgOptions env ''text'' unsupported_text)
        in case send_qq env c item of Inl e \<Rightarrow> Inl e | Inr res \<Rightarrow> Inr [(item, res)])"
  by (simp add: deliver_qq_def split_beta Let_def split: sum.splits)

lemma deliver_guild_fallback:
  "d_list d = [] \<Longrightarrow>
     deliver_guild env c d =
       (let item = pasmsg_guild (d_pasmsg d) (GObj (GuildMsgOptions env ''text'' unsupported_text None))
        in case send_guild env c item of Inl e \<Rightarrow> Inl e | Inr res \<Rightarrow> Inr [(item, res)])"
  by (simp add: deliver_guild_def Let_def split: sum.splits)

text \<open>
  C9. In both send functions of the direct pipeline an element whose tag has no branch
  leaves the draft as it is, adds one debug-level log entry and never fails; the payloads
  sent and the failure, if any, are those of the sequence without such elements, and the
  debug entries of a completed send are exactly one per such element, in order. When the
  payload list is empty after \<open>markdownToButton\<close>, the final loop sends exactly one
  payload, the text payload with the literal \<open>unsupported_text\<close> (with the passive-reply
  binding applied to it like to any other).
\<close>

theorem unsupported_skipped_and_fallback_sent:
  "(\<not> supported_qq v \<longrightarrow> classify_qq env c dq v = Inr (dq, [(LDebug, el_type v)]))
   \<and> (\<not> supported_guild v \<longrightarrow> classify_guild env c dg v = Inr (dg, [(LDebug, el_type v)]))
   \<and> map_sum id fst (sendQQMsg env c els)
        = map_sum id fst (sendQQMsg env c (filter supported_qq els))
   \<and> map_sum id fst (sendGuildMsg env c els)
        = map_sum id fst (sendGuildMsg env c (filter supported_guild els))
   \<and> (sendQQMsg env c els = Inr (sent, lg) \<longrightarrow>
        filter (\<lambda>e. fst e = LDebug) lg
          = map (\<lambda>v. (LDebug, el_type v)) (filter (\<lambda>v. \<not> supported_qq v) els))
   \<and> (sendGuildMsg env c els = Inr (sent', lg') \<longrightarrow>
        filter (\<lambda>e. fst e = LDebug) lg'
          = map (\<lambda>v. (LDebug, el_type v)) (filter (\<lambda>v. \<not> supported_guild v) els))
   \<and> (d_list dq = [] \<longrightarrow>
        deliver_qq env c dq =
          (let item = snd (pasmsg_normal c (d_pasmsg dq)) (QQdMsgOptions env ''text'' unsupported_text)
           in case send_qq env c item of Inl e \<Rightarrow> Inl e | Inr res \<Rightarrow> Inr [(item, res)]))
   \<and> (d_list dg = [] \<longrightarrow>
        deliver_guild env c dg =
          (let item = pasmsg_guild (d_pasmsg dg) (GObj (GuildMsgOptions env ''text'' unsupported_text None))
           in case send_guild env c item of Inl e \<Rightarrow> Inl e | Inr res \<Rightarrow> Inr [(item, res)]))"
proof -
  have q: "map_sum id fst (sendQQMsg env c els)
        = map_sum id fst (sendQQMsg env c (filter supported_qq els))"
    by (simp only: sendQQMsg_strip qq_loop_filter [of env c els])
  have g: "map_sum id fst (sendGuildMsg env c els)
        = map_sum id fst (sendGuildMsg env c (filter supported_guild els))"
    by (simp only: sendGuildMsg_strip guild_loop_filter [of env c els])
  from q g show ?thesis
    using classify_qq_unsupported [of v env c dq] classify_guild_unsupported [of v env c dg]
      sendQQMsg_log [of env c els sent lg] sendGuildMsg_log [of env c els sent' lg']
      deliver_qq_fallback [of dq env c] deliver_guild_fallback [of dg env c]
    by blast
qed

lemma ex_send_unsupported_qq:
  "sendQQMsg ex_env ex_group [ElOther ''json'', ElAt ''u1''] =
     Inr ([(\<lparr>q_kind = ''text'', q_content = unsupported_text, msg_seq = None, msg_id = None,
              event_id = None, is_wakeup = None\<rparr>, ''ok'')],
          [(LDebug, ''json''), (LDebug, ''at'')])"
  by (simp add: sendQQMsg_def compose_qq_def assemble_qq_def deliver_qq_def pasmsg_normal_def
        send_qq_def ex_env_def ex_draft_def ex_group_def Let_def)

lemma ex_send_unsupported_guild:
  "sendGuildMsg ex_env ex_channel [ElVideo ''v.mp4'', ElOther ''json''] =
     Inr ([(GObj \<lparr>g_kind = ''text'', g_content = unsupported_text, g_image = None,
                  g_msg_id = None, g_event_id = None\<rparr>, ''ok'')],
          [(LDebug, ''video''), (LDebug, ''json'')])"
  by (simp add: sendGuildMsg_def compose_guild_def assemble_guild_def guild_head_def
        deliver_guild_def pasmsg_guild_def send_guild_def ex_env_def ex_draft_def ex_channel_def
        Let_def)

theorem unsupported_skipped_and_fallback_sent_witness:
  "\<not> supported_qq (ElOther ''json'') \<and> \<not> supported_guild (ElOther ''json'')
   \<and> classify_qq ex_env ex_group ex_draft (ElOther ''json'') = Inr (ex_draft, [(LDebug, ''json'')])
   \<and> classify_guild ex_env ex_channel ex_draft (ElOther ''json'') = Inr (ex_draft, [(LDebug, ''json'')])
   \<and> sendQQMsg ex_env ex_group [ElOther ''json'', ElAt ''u1''] =
       Inr ([(\<lparr>q_kind = ''text'', q_content = unsupported_text, msg_seq = None, msg_id = None,
              event_id = None, is_wakeup = None\<rparr>, ''ok'')],
            [(LDebug, ''json''), (LDebug, ''at'')])
   \<and> map_sum id fst (sendQQMsg ex_env ex_group [ElOther ''json'', ElAt ''u1''])
       = map_sum id fst (sendQQMsg ex_env ex_group [])
   \<and> sendGuildMsg ex_env ex_channel [ElVideo ''v.mp4'', ElOther ''json''] =
       Inr ([(GObj \<lparr>g_kind = ''text'', g_content = unsupported_text, g_image = None,
                  g_msg_id = None, g_event_id = None\<rparr>, ''ok'')],
            [(LDebug, ''video''), (LDebug, ''json'')])
   \<and> d_list (ex_draft :: qq_msg draft) = []
   \<and> deliver_qq ex_env ex_group ex_draft =
       Inr [(\<lparr>q_kind = ''text'', q_content = unsupported_text, msg_seq = None, msg_id = None,
              event_id = None, is_wakeup = None\<rparr>, ''ok'')]
   \<and> d_list (ex_draft :: guild_msg draft) = []
   \<and> deliver_guild ex_env ex_channel ex_draft =
       Inr [(GObj \<lparr>g_kind = ''text'', g_content = unsupported_text, g_image = None,
                  g_msg_id = None, g_event_id = None\<rparr>, ''ok'')]"
proof -
  note t1 = unsupported_skipped_and_fallback_sent [where v = "ElOther ''json''" and env = ex_env
      and c = ex_group and dq = ex_draft and dg = ex_draft
      and els = "[ElOther ''json'', ElAt ''u1'']"]
  note t2 = unsupported_skipped_and_fallback_sent [where v = "ElOther ''json''" and env = ex_env
      and c = ex_channel and dq = ex_draft and dg = ex_draft
      and els = "[ElVideo ''v.mp4'', ElOther ''json'']"]
  have u: "\<not> supported_qq (ElOther ''json'')" "\<not> supported_guild (ElOther ''json'')" by simp_all
  have e: "d_list (ex_draft :: qq_msg draft) = []" "d_list (ex_draft :: guild_msg draft) = []"
    by (simp_all add: ex_draft_def)
  have f: "filter supported_qq [ElOther ''json'', ElAt ''u1''] = []" by simp
  note c1 = t1 [THEN conjunct1, rule_format, OF u(1)]
  note c2 = t2 [THEN conjunct2, THEN conjunct1, rule_format, OF u(2)]
  note m = t1 [THEN conjunct2, THEN conjunct2, THEN conjunct1]
  note d1 = t1 [THEN conjunct2, THEN conjunct2, THEN conjunct2, THEN conjunct2, THEN conjunct2,
      THEN conjunct2, THEN conjunct1, rule_format, OF e(1)]
  note d2 = t2 [THEN conjunct2, THEN conjunct2, THEN conjunct2, THEN conjunct2, THEN conjunct2,
      THEN conjunct2, THEN conjunct2, rule_format, OF e(2)]
  have d1': "deliver_qq ex_env ex_group ex_draft =
       Inr [(\<lparr>q_kind = ''text'', q_content = unsupported_text, msg_seq = None, msg_id = None,
              event_id = None, is_wakeup = None\<rparr>, ''ok'')]"
    unfolding d1
    by (simp add: pasmsg_normal_def send_qq_def ex_env_def ex_draft_def ex_group_def Let_def)
  have d2': "deliver_guild ex_env ex_channel ex_draft =
       Inr [(GObj \<lparr>g_kind = ''text'', g_content = unsupported_text, g_image = None,
                  g_msg_id = None, g_event_id = None\<rparr>, ''ok'')]"
    unfolding d2
    by (simp add: pasmsg_guild_def send_guild_def ex_env_def ex_draft_def ex_channel_def Let_def)
  from u c1 c2 m e d1' d2' ex_send_unsupported_qq ex_send_unsupported_guild show ?thesis
    by (simp only: f el_type.simps) simp
qed

section \<open>Composer: the sequence numbers of the passive-reply binding\<close>

lemma pasmsg_normal_seq:
  assumes "pm_msg_id pm \<noteq> []" and "\<not> (pm_is_wakeup pm \<and> c_scene c = Friend)"
  shows "msg_seq (snd (pasmsg_normal c pm) item) = Some (pm_msg_seq pm + 1)"
  using assms by (auto simp: pasmsg_normal_def Let_def)

text \<open>
  The direct pipeline gives every payload of one send call the same sequence number.
\<close>

lemma normal_binding_repeats:
  assumes "pm_msg_id pm \<noteq> []" and "\<not> (pm_is_wakeup pm \<and> c_scene c = Friend)"
  shows "map msg_seq (map (snd (pasmsg_normal c pm)) items)
           = replicate (length items) (Some (pm_msg_seq pm + 1))"
  by (induction items) (simp_all add: pasmsg_normal_seq [OF assms])

text \<open>
  The template pipeline's closure, applied once to each of N payloads in order, numbers
  them base, base + 1, ..., base + N - 1: the base is the draft's \<open>msg_seq\<close> when the
  binding carries an id, and \<open>Date.now() % 0xFFFFFFFF\<close> when it carries none.
\<close>

lemma markdown_binding_increases:
  assumes "\<not> (pm_is_wakeup pm \<and> c_scene c = Friend)"
  shows "map msg_seq (bind_all (pasmsg_markdown c pm now) n items)
           = map (\<lambda>i. Some ((if pm_msg_id pm = [] then now mod 0xFFFFFFFF else pm_msg_seq pm) + int i))
               [n..<n + length items]"
proof (induction items arbitrary: n)
  case Nil
  show ?case by simp
next
  case (Cons item items)
  have step: "pasmsg_markdown c pm now n item
      = (fst (pasmsg_markdown c pm now n item), Suc n)"
    and seq: "msg_seq (fst (pasmsg_markdown c pm now n item))
      = Some ((if pm_msg_id pm = [] then now mod 0xFFFFFFFF else pm_msg_seq pm) + int n)"
    using assms by (auto simp: pasmsg_markdown_def Let_def)
  have "map msg_seq (bind_all (pasmsg_markdown c pm now) n (item # items))
      = msg_seq (fst (pasmsg_markdown c pm now n item))
          # map msg_seq (bind_all (pasmsg_markdown c pm now) (Suc n) items)"
    by (subst bind_all.simps, subst step) simp
  also have "\<dots> = Some ((if pm_msg_id pm = [] then now mod 0xFFFFFFFF else pm_msg_seq pm) + int n)
      # map (\<lambda>i. Some ((if pm_msg_id pm = [] then now mod 0xFFFFFFFF else pm_msg_seq pm) + int i))
          [Suc n..<Suc n + length items]"
    by (simp only: seq Cons.IH)
  also have "\<dots> = map (\<lambda>i. Some ((if pm_msg_id pm = [] then now mod 0xFFFFFFFF else pm_msg_seq pm) + int i))
          [n..<n + length (item # items)]"
    by (simp only: length_Cons upt_shift list.map)
  finally show ?case .
qed

text \<open>
  C1, at the send call of \<open>[pasmsg m1, text hi, image a.png]\<close> to a group through the
  direct pipeline, where nothing fails and the draft starts with sequence number 0: two
  payloads are sent, both bound to \<open>m1\<close>, and both carry the sequence number 1. The
  template pipeline's closure numbers the same two payloads 0 and 1.
\<close>

theorem normal_sendQQMsg_repeats_msg_seq:
  "sendQQMsg ex_env ex_group [ElPasmsg ''m1'' False False, ElText ''hi'', ElImage ''a.png''] =
     Inr ([(\<lparr>q_kind = ''text'', q_content = ''hi'', msg_seq = Some 1, msg_id = Some ''m1'',
              event_id = None, is_wakeup = None\<rparr>, ''ok''),
           (\<lparr>q_kind = ''media'', q_content = ''info:a.png'', msg_seq = Some 1, msg_id = Some ''m1'',
              event_id = None, is_wakeup = None\<rparr>, ''ok'')], [])
   \<and> map msg_seq (bind_all (pasmsg_markdown ex_group
          \<lparr>pm_type = PMsg, pm_msg_id = ''m1'', pm_msg_seq = 0, pm_is_wakeup = False\<rparr> 0) 0
        [QQdMsgOptions ex_env ''text'' ''hi'', QQdMsgOptions ex_env ''media'' ''info:a.png''])
       = [Some 0, Some 1]"
  by (simp add: sendQQMsg_def compose_qq_def assemble_qq_def deliver_qq_def pasmsg_normal_def
        push_text_def hendleText_def send_qq_def upload_target_def pasmsg_markdown_def
        ex_env_def ex_draft_def ex_group_def Let_def)

end
